theory Spec2Isabelle
  imports Complex_Main
begin

section \<open>JavaScript values\<close>

text \<open>
  The response body and the assertion inputs are values decoded from JSON and YAML.
  A number is a double: a finite value is kept as the rational it denotes (every double is
  one; the two zeros coincide, which no operation of this code tells apart), next to the
  two infinities and NaN.  An object is the list of its own enumerable properties in the
  order \<^verbatim>\<open>Object.keys\<close> enumerates them; a well-formed object has distinct keys.  A string
  is a list of code units.  \<open>JNative n\<close> is what a property read finds on a prototype: the
  built-in member named \<open>n\<close> (a function, or the prototype object for \<^verbatim>\<open>__proto__\<close>).
\<close>

datatype jsnum = Fin rat | PInf | NInf | NaN

datatype jsval =
    JUndefined
  | JNull
  | JBool bool
  | JNum jsnum
  | JStr string
  | JArr "jsval list"
  | JObj "(string \<times> jsval) list"
  | JNative string

text \<open>Error objects thrown by the language itself; \<^verbatim>\<open>err.message\<close> is their text.\<close>

datatype jserror = TypeError string | SyntaxError string

fun error_message :: "jserror \<Rightarrow> string" where
  "error_message (TypeError m) = m"
| "error_message (SyntaxError m) = m"

definition bindE :: "'e + 'a \<Rightarrow> ('a \<Rightarrow> 'e + 'b) \<Rightarrow> 'e + 'b" where
  "bindE m f = (case m of Inl e \<Rightarrow> Inl e | Inr x \<Rightarrow> f x)"

text \<open>
  What a custom validator hands back: a value, or an awaitable (settled with a rejection
  \<open>Inl\<close> or a value \<open>Inr\<close>).  The \<^verbatim>\<open>validate\<close> export of a loaded module is missing, present
  but not a function, or a function of the record and the configuration that may throw any
  value and may change the world outside the engine (type \<open>'w\<close>).  A validator is taken
  not to write into the record and the configuration it is handed: the response and the
  specs are values here, and nothing in the engine itself assigns into them.
\<close>

datatype cvret = Returned jsval | Awaitable "jsval + jsval"

datatype 'w jsexport =
    Missing
  | NotCallable
  | Callable "jsval \<Rightarrow> jsval \<Rightarrow> 'w \<Rightarrow> (jsval + cvret) \<times> 'w"

text \<open>
  The parts of the JavaScript runtime the code calls and this theory does not define:
  the members a value inherits beyond those of \<^verbatim>\<open>Object.prototype\<close>, the own properties
  and the text of a built-in, the text of a number that is not a safe integer, regular
  expressions (\<open>Inl\<close> is the message of the SyntaxError of a malformed pattern), date
  parsing, and the module loader behind \<^verbatim>\<open>import(path)\<close> (\<open>Inl\<close> is the value the import
  rejects with).
\<close>

record 'w jsenv =
  proto_extra :: "jsval \<Rightarrow> string \<Rightarrow> bool"
  native_own :: "string \<Rightarrow> string \<Rightarrow> bool"
  native_to_string :: "string \<Rightarrow> string"
  num_to_string :: "rat \<Rightarrow> string"
  regexp_compile :: "string \<Rightarrow> string + (string \<Rightarrow> bool)"
  date_valid :: "string \<Rightarrow> bool"
  import_module :: "jsval \<Rightarrow> 'w \<Rightarrow> (jsval + 'w jsexport) \<times> 'w"

subsection \<open>Operators\<close>

fun typeof :: "jsval \<Rightarrow> string" where
  "typeof JUndefined = ''undefined''"
| "typeof JNull = ''object''"
| "typeof (JBool b) = ''boolean''"
| "typeof (JNum n) = ''number''"
| "typeof (JStr s) = ''string''"
| "typeof (JArr xs) = ''object''"
| "typeof (JObj kvs) = ''object''"
| "typeof (JNative n) = (if n = ''__proto__'' then ''object'' else ''function'')"

fun truthy :: "jsval \<Rightarrow> bool" where
  "truthy JUndefined = False"
| "truthy JNull = False"
| "truthy (JBool b) = b"
| "truthy (JNum n) = (n \<noteq> Fin 0 \<and> n \<noteq> NaN)"
| "truthy (JStr s) = (s \<noteq> [])"
| "truthy (JArr xs) = True"
| "truthy (JObj kvs) = True"
| "truthy (JNative n) = True"

fun nullish :: "jsval \<Rightarrow> bool" where
  "nullish JUndefined = True"
| "nullish JNull = True"
| "nullish v = False"

fun isArray :: "jsval \<Rightarrow> bool" where
  "isArray (JArr xs) = True"
| "isArray v = False"

text \<open>\<^verbatim>\<open>a < b\<close> and \<^verbatim>\<open>a > b\<close> on numbers: false whenever NaN takes part.\<close>

fun num_lt :: "jsnum \<Rightarrow> jsnum \<Rightarrow> bool" where
  "num_lt NaN b = False"
| "num_lt a NaN = False"
| "num_lt (Fin a) (Fin b) = (a < b)"
| "num_lt a PInf = (a \<noteq> PInf)"
| "num_lt NInf b = (b \<noteq> NInf)"
| "num_lt a b = False"

definition num_gt :: "jsnum \<Rightarrow> jsnum \<Rightarrow> bool" where
  "num_gt a b = num_lt b a"

fun isInteger :: "jsnum \<Rightarrow> bool" where
  "isInteger (Fin q) = (of_int \<lfloor>q\<rfloor> = q)"
| "isInteger n = False"

text \<open>\<^verbatim>\<open>arr.length\<close> as a number.\<close>

definition num_of_nat :: "nat \<Rightarrow> jsnum" where
  "num_of_nat n = Fin (of_nat n)"

subsection \<open>Conversion to a string\<close>

definition digit_char :: "nat \<Rightarrow> char" where
  "digit_char d = (''0123456789'' ! d)"

fun show_nat :: "nat \<Rightarrow> string" where
  "show_nat n =
     (if n < 10 then [digit_char n] else show_nat (n div 10) @ [digit_char (n mod 10)])"

declare show_nat.simps [simp del]

text \<open>
  A safe integer prints as its decimal digits; the other finite numbers print as the
  runtime decides (shortest round-trip digits, exponents).
\<close>

definition show_num :: "'w jsenv \<Rightarrow> jsnum \<Rightarrow> string" where
  "show_num env n =
     (case n of
        NaN \<Rightarrow> ''NaN''
      | PInf \<Rightarrow> ''Infinity''
      | NInf \<Rightarrow> ''-Infinity''
      | Fin q \<Rightarrow>
          if of_int \<lfloor>q\<rfloor> = q \<and> \<bar>q\<bar> \<le> 2 ^ 53
          then (if q < 0 then ''-'' @ show_nat (nat \<lfloor>- q\<rfloor>) else show_nat (nat \<lfloor>q\<rfloor>))
          else num_to_string env q)"

fun join :: "string \<Rightarrow> string list \<Rightarrow> string" where
  "join sep [] = []"
| "join sep [x] = x"
| "join sep (x # y # ys) = x @ sep @ join sep (y # ys)"

text \<open>
  \<^verbatim>\<open>String(v)\<close>, as a template literal, a property key and a regular expression apply it.
  An array joins its elements with a comma (null and undefined elements as the empty
  string).  A plain object prints \<^verbatim>\<open>[object Object]\<close> through the inherited
  \<^verbatim>\<open>toString\<close>; an own property of that name, which decoded data can only bind to
  something that is not a function, leaves no way to a primitive, and the conversion
  throws.
\<close>

fun to_string :: "'w jsenv \<Rightarrow> jsval \<Rightarrow> jserror + string"
  and elem_strings :: "'w jsenv \<Rightarrow> jsval list \<Rightarrow> jserror + string list" where
  "to_string env JUndefined = Inr ''undefined''"
| "to_string env JNull = Inr ''null''"
| "to_string env (JBool b) = Inr (if b then ''true'' else ''false'')"
| "to_string env (JNum n) = Inr (show_num env n)"
| "to_string env (JStr s) = Inr s"
| "to_string env (JArr xs) = bindE (elem_strings env xs) (\<lambda>ss. Inr (join '','' ss))"
| "to_string env (JObj kvs) =
     (if ''toString'' \<in> set (map fst kvs)
      then Inl (TypeError ''Cannot convert object to primitive value'')
      else Inr ''[object Object]'')"
| "to_string env (JNative n) = Inr (native_to_string env n)"
| "elem_strings env [] = Inr []"
| "elem_strings env (x # xs) =
     bindE (if nullish x then Inr [] else to_string env x)
       (\<lambda>s. bindE (elem_strings env xs) (\<lambda>ss. Inr (s # ss)))"

text \<open>A template literal: its literal pieces and its substitutions, left to right.\<close>

datatype tpart = L string | V jsval

fun template :: "'w jsenv \<Rightarrow> tpart list \<Rightarrow> jserror + string" where
  "template env [] = Inr []"
| "template env (L s # ps) = bindE (template env ps) (\<lambda>r. Inr (s @ r))"
| "template env (V v # ps) =
     bindE (to_string env v) (\<lambda>s. bindE (template env ps) (\<lambda>r. Inr (s @ r)))"

subsection \<open>Properties\<close>

text \<open>
  The own enumerable properties of a value (\<^verbatim>\<open>Object.keys\<close>, \<^verbatim>\<open>for ... in\<close>): the entries
  of an object, the indices of an array or of a string.
\<close>

fun own_entries :: "jsval \<Rightarrow> (string \<times> jsval) list" where
  "own_entries (JObj kvs) = kvs"
| "own_entries (JArr xs) = zip (map show_nat [0..<length xs]) xs"
| "own_entries (JStr s) = zip (map show_nat [0..<length s]) (map (\<lambda>c. JStr [c]) s)"
| "own_entries v = []"

definition own_keys :: "jsval \<Rightarrow> string list" where
  "own_keys v = map fst (own_entries v)"

fun length_of :: "jsval \<Rightarrow> nat option" where
  "length_of (JArr xs) = Some (length xs)"
| "length_of (JStr s) = Some (length s)"
| "length_of v = None"

text \<open>\<^verbatim>\<open>Object.prototype.hasOwnProperty.call(v, k)\<close> on a value that is not null or undefined.\<close>

definition has_own :: "'w jsenv \<Rightarrow> jsval \<Rightarrow> string \<Rightarrow> bool" where
  "has_own env v k =
     (k \<in> set (own_keys v)
      \<or> (k = ''length'' \<and> length_of v \<noteq> None)
      \<or> (case v of JNative n \<Rightarrow> native_own env n k | _ \<Rightarrow> False))"

definition object_prototype_keys :: "string list" where
  "object_prototype_keys =
     [''constructor'', ''hasOwnProperty'', ''isPrototypeOf'', ''propertyIsEnumerable'',
      ''toLocaleString'', ''toString'', ''valueOf'', ''__defineGetter__'',
      ''__defineSetter__'', ''__lookupGetter__'', ''__lookupSetter__'', ''__proto__'']"

definition inherited :: "'w jsenv \<Rightarrow> jsval \<Rightarrow> string \<Rightarrow> bool" where
  "inherited env v k = (k \<in> set object_prototype_keys \<or> proto_extra env v k)"

text \<open>
  \<^verbatim>\<open>v[k]\<close> on a value that is not null or undefined: the own property, else the length of
  an array or string, else the inherited built-in, else undefined.
\<close>

definition get_prop :: "'w jsenv \<Rightarrow> jsval \<Rightarrow> string \<Rightarrow> jsval" where
  "get_prop env v k =
     (case map_of (own_entries v) k of
        Some x \<Rightarrow> x
      | None \<Rightarrow>
          (case (if k = ''length'' then length_of v else None) of
             Some n \<Rightarrow> JNum (num_of_nat n)
           | None \<Rightarrow> if has_own env v k \<or> inherited env v k then JNative k else JUndefined))"

text \<open>\<^verbatim>\<open>obj[field]\<close>: reading any property of null or undefined throws.\<close>

definition js_get :: "'w jsenv \<Rightarrow> jsval \<Rightarrow> jsval \<Rightarrow> jserror + jsval" where
  "js_get env obj field =
     (if nullish obj
      then Inl (TypeError ''Cannot read properties of undefined or null'')
      else bindE (to_string env field) (\<lambda>k. Inr (get_prop env obj k)))"

text \<open>\<^verbatim>\<open>const { a, b } = inputs\<close>: destructuring null or undefined throws.\<close>

definition destructure :: "jsval \<Rightarrow> jserror + unit" where
  "destructure inputs =
     (if nullish inputs
      then Inl (TypeError ''Cannot destructure undefined or null'')
      else Inr ())"

text \<open>A destructuring default, \<^verbatim>\<open>{ a = d }\<close>, applies when the property is undefined.\<close>

definition default_to :: "jsval \<Rightarrow> jsval \<Rightarrow> jsval" where
  "default_to v d = (if v = JUndefined then d else v)"

section \<open>Results\<close>

text \<open>What an evaluator returns, \<^verbatim>\<open>{ pass, msg }\<close>.\<close>

record outcome =
  pass :: bool
  msg :: string

definition passing :: outcome where
  "passing = \<lparr>pass = True, msg = ''Assertion passed.''\<rparr>"

definition failing :: "string \<Rightarrow> outcome" where
  "failing m = \<lparr>pass = False, msg = m\<rparr>"

text \<open>A failure whose message is a template literal.\<close>

definition fail_with :: "'w jsenv \<Rightarrow> tpart list \<Rightarrow> jserror + outcome" where
  "fail_with env ps = bindE (template env ps) (\<lambda>m. Inr (failing m))"

section \<open>validateArrayLevel\<close>

text \<open>\<^verbatim>\<open>typeof b === "number" && a < b\<close>, and the same with \<^verbatim>\<open>>\<close>.\<close>

definition below_number :: "jsnum \<Rightarrow> jsval \<Rightarrow> bool" where
  "below_number a b = (case b of JNum m \<Rightarrow> num_lt a m | _ \<Rightarrow> False)"

definition above_number :: "jsnum \<Rightarrow> jsval \<Rightarrow> bool" where
  "above_number a b = (case b of JNum m \<Rightarrow> num_gt a m | _ \<Rightarrow> False)"

definition validateArrayLevel ::
  "'w jsenv \<Rightarrow> jsval list \<Rightarrow> string \<Rightarrow> jsval \<Rightarrow> jserror + outcome" where
  \<open>validateArrayLevel env arrayData assertion inputs =
     (if assertion = ''Array Validation'' then
        bindE (destructure inputs) (\<lambda>_.
          let minLength = get_prop env inputs ''minLength'';
              maxLength = get_prop env inputs ''maxLength'';
              len = num_of_nat (length arrayData)
          in if below_number len minLength then
               fail_with env [L ''Array length is below minimum '', V minLength,
                              L ''. Actual length = '', V (JNum len)]
             else if above_number len maxLength then
               fail_with env [L ''Array length exceeds maximum '', V maxLength,
                              L ''. Actual length = '', V (JNum len)]
             else Inr passing)
      else
        Inr \<lparr>pass = True,
             msg = ''Unrecognized array-level assertion: "'' @ assertion @ ''". Skipping.''\<rparr>)\<close>

section \<open>Built-in operations the object-level checks use\<close>

text \<open>
  The loop shape of every check: visit the elements in order, and stop at the first one
  for which a condition fails (\<^verbatim>\<open>pass = false; msg = ...; break\<close>).
\<close>

fun first_failure :: "('a \<Rightarrow> jserror + outcome) \<Rightarrow> 'a list \<Rightarrow> jserror + outcome" where
  "first_failure chk [] = Inr passing"
| "first_failure chk (x # xs) =
     bindE (chk x) (\<lambda>r. if pass r then first_failure chk xs else Inr r)"

text \<open>\<^verbatim>\<open>Array.isArray(inputs) ? inputs : [inputs]\<close>.\<close>

fun as_list :: "jsval \<Rightarrow> jsval list" where
  "as_list (JArr xs) = xs"
| "as_list v = [v]"

text \<open>\<^verbatim>\<open>for (const x of v)\<close>: an array yields its elements, a string its characters.\<close>

fun iterate :: "jsval \<Rightarrow> jserror + jsval list" where
  "iterate (JArr xs) = Inr xs"
| "iterate (JStr s) = Inr (map (\<lambda>c. JStr [c]) s)"
| "iterate v = Inl (TypeError ''value is not iterable'')"

text \<open>\<^verbatim>\<open>new Set(v)\<close>: null and undefined give the empty set.\<close>

definition new_set :: "jsval \<Rightarrow> jserror + jsval list" where
  "new_set v = (if nullish v then Inr [] else iterate v)"

text \<open>
  Equality as \<^verbatim>\<open>Set\<close> and \<^verbatim>\<open>includes\<close> use it.  Primitives compare by value.  Arrays and
  objects compare by identity: in decoded data every array and object is an object of its
  own, and the position in the data is all the identity there is, so two of them taken
  from different places are never the same.
\<close>

fun composite :: "jsval \<Rightarrow> bool" where
  "composite (JArr xs) = True"
| "composite (JObj kvs) = True"
| "composite v = False"

definition same_value_zero :: "jsval \<Rightarrow> jsval \<Rightarrow> bool" where
  "same_value_zero a b = (\<not> composite a \<and> a = b)"

definition set_has :: "jsval list \<Rightarrow> jsval \<Rightarrow> bool" where
  "set_has xs v = list_ex (\<lambda>x. same_value_zero x v) xs"

text \<open>\<^verbatim>\<open>new Set(arr).size\<close> for the elements of one array.\<close>

definition set_size :: "jsval list \<Rightarrow> nat" where
  "set_size xs =
     length (remdups (filter (\<lambda>x. \<not> composite x) xs)) + length (filter composite xs)"

text \<open>\<^verbatim>\<open>Object.keys(obj)\<close>.\<close>

definition object_keys :: "jsval \<Rightarrow> jserror + string list" where
  "object_keys obj =
     (if nullish obj
      then Inl (TypeError ''Cannot convert undefined or null to object'')
      else Inr (own_keys obj))"

text \<open>\<^verbatim>\<open>Object.prototype.hasOwnProperty.call(obj, field)\<close>.\<close>

definition call_hasOwnProperty :: "'w jsenv \<Rightarrow> jsval \<Rightarrow> jsval \<Rightarrow> jserror + bool" where
  "call_hasOwnProperty env obj field =
     bindE (to_string env field) (\<lambda>k.
       if nullish obj
       then Inl (TypeError ''Cannot convert undefined or null to object'')
       else Inr (has_own env obj k))"

text \<open>
  \<^verbatim>\<open>obj.hasOwnProperty(field)\<close>: the method is looked up on the value itself, so an own
  property of that name takes its place and the call throws.
\<close>

definition method_hasOwnProperty :: "'w jsenv \<Rightarrow> jsval \<Rightarrow> jsval \<Rightarrow> jserror + bool" where
  "method_hasOwnProperty env obj field =
     (if nullish obj then Inl (TypeError ''Cannot read properties of undefined or null'')
      else if get_prop env obj ''hasOwnProperty'' \<noteq> JNative ''hasOwnProperty''
      then Inl (TypeError ''obj.hasOwnProperty is not a function'')
      else call_hasOwnProperty env obj field)"

text \<open>\<^verbatim>\<open>s.trim()\<close>: the white space among the code units below 256.\<close>

definition white_space :: "char \<Rightarrow> bool" where
  "white_space c = (of_char c \<in> {9, 10, 11, 12, 13, 32, 160 :: nat})"

definition trim :: "string \<Rightarrow> string" where
  "trim s = rev (dropWhile white_space (rev (dropWhile white_space s)))"

text \<open>\<^verbatim>\<open>s.includes(t)\<close> on strings.\<close>

fun is_prefix :: "string \<Rightarrow> string \<Rightarrow> bool" where
  "is_prefix [] s = True"
| "is_prefix (c # t) [] = False"
| "is_prefix (c # t) (d # s) = (c = d \<and> is_prefix t s)"

fun contains :: "string \<Rightarrow> string \<Rightarrow> bool" where
  "contains [] t = (t = [])"
| "contains (c # s) t = (is_prefix t (c # s) \<or> contains s t)"

text \<open>
  \<^verbatim>\<open>v.includes(x)\<close>: arrays and strings have the method; reading it off null or undefined
  throws, and so does calling what any other value answers.
\<close>

fun js_includes :: "'w jsenv \<Rightarrow> jsval \<Rightarrow> jsval \<Rightarrow> jserror + bool" where
  "js_includes env (JArr xs) x = Inr (list_ex (\<lambda>y. same_value_zero y x) xs)"
| "js_includes env (JStr s) x = bindE (to_string env x) (\<lambda>t. Inr (contains s t))"
| "js_includes env JUndefined x = Inl (TypeError ''Cannot read properties of undefined'')"
| "js_includes env JNull x = Inl (TypeError ''Cannot read properties of null'')"
| "js_includes env v x = Inl (TypeError ''includes is not a function'')"

text \<open>\<^verbatim>\<open>v.join(", ")\<close>: only arrays have the method.\<close>

fun join_method :: "'w jsenv \<Rightarrow> jsval \<Rightarrow> string \<Rightarrow> jserror + string" where
  "join_method env (JArr xs) sep = bindE (elem_strings env xs) (\<lambda>ss. Inr (join sep ss))"
| "join_method env JUndefined sep = Inl (TypeError ''Cannot read properties of undefined'')"
| "join_method env JNull sep = Inl (TypeError ''Cannot read properties of null'')"
| "join_method env v sep = Inl (TypeError ''join is not a function'')"

text \<open>
  \<^verbatim>\<open>new RegExp(pattern)\<close>: an undefined pattern is the empty pattern, any other value is
  converted to a string and compiled; \<^verbatim>\<open>re.test(x)\<close> converts \<open>x\<close> to a string.
\<close>

definition new_RegExp :: "'w jsenv \<Rightarrow> jsval \<Rightarrow> jserror + (string \<Rightarrow> bool)" where
  "new_RegExp env pattern =
     bindE (if pattern = JUndefined then Inr [] else to_string env pattern) (\<lambda>src.
       case regexp_compile env src of
         Inl m \<Rightarrow> Inl (SyntaxError m)
       | Inr re \<Rightarrow> Inr re)"

definition regexp_test :: "'w jsenv \<Rightarrow> (string \<Rightarrow> bool) \<Rightarrow> jsval \<Rightarrow> jserror + bool" where
  "regexp_test env re x = bindE (to_string env x) (\<lambda>s. Inr (re s))"

text \<open>\<^verbatim>\<open>v || ""\<close>.\<close>

definition or_empty :: "jsval \<Rightarrow> jsval" where
  "or_empty v = (if truthy v then v else JStr [])"


section \<open>validateObjectLevel: the checks, one per case of the switch\<close>

text \<open>1. Schema Compliance.\<close>

definition schemaCompliance :: "'w jsenv \<Rightarrow> jsval \<Rightarrow> jsval \<Rightarrow> jserror + outcome" where
  \<open>schemaCompliance env obj inputs =
     bindE (destructure inputs) (\<lambda>_.
       let schema = get_prop env inputs ''schema'';
           strict = default_to (get_prop env inputs ''strict'') (JBool False)
       in if \<not> truthy schema \<or> typeof schema \<noteq> ''object'' then
            Inr (failing ''No schema object provided in inputs.'')
          else
            bindE (first_failure
                     (\<lambda>(fieldName, expectedType).
                        bindE (js_get env obj (JStr fieldName)) (\<lambda>v.
                          if JStr (typeof v) \<noteq> expectedType then
                            fail_with env
                              [L ''Field "'', V (JStr fieldName), L ''" should be type "'',
                               V expectedType, L ''" but got "'', V (JStr (typeof v)), L ''".'']
                          else Inr passing))
                     (own_entries schema))
              (\<lambda>r. if pass r \<and> truthy strict then
                     bindE (object_keys obj) (\<lambda>keys.
                       first_failure
                         (\<lambda>key.
                            bindE (method_hasOwnProperty env schema (JStr key)) (\<lambda>known.
                              if \<not> known then
                                fail_with env
                                  [L ''Strict schema compliance failed. Unexpected field "'',
                                   V (JStr key), L ''".'']
                              else Inr passing))
                         keys)
                   else Inr r))\<close>

text \<open>2. Required Fields.\<close>

definition requiredFields :: "'w jsenv \<Rightarrow> jsval \<Rightarrow> jsval \<Rightarrow> jserror + outcome" where
  \<open>requiredFields env obj inputs =
     first_failure
       (\<lambda>field.
          bindE (call_hasOwnProperty env obj field) (\<lambda>present.
            if \<not> present then
              fail_with env [L ''Missing required field: "'', V field, L ''".'']
            else Inr passing))
       (as_list inputs)\<close>

text \<open>3. No Additional Fields.\<close>

definition noAdditionalFields :: "'w jsenv \<Rightarrow> jsval \<Rightarrow> jsval \<Rightarrow> jserror + outcome" where
  \<open>noAdditionalFields env obj inputs =
     (let allowedFields = as_list inputs
      in bindE (object_keys obj) (\<lambda>keys.
           first_failure
             (\<lambda>key.
                if \<not> set_has allowedFields (JStr key) then
                  fail_with env [L ''Unexpected field found: "'', V (JStr key), L ''".'']
                else Inr passing)
             keys))\<close>

text \<open>4. String Field Validation: the list form, then the structured form.\<close>

definition stringFieldValidation :: "'w jsenv \<Rightarrow> jsval \<Rightarrow> jsval \<Rightarrow> jserror + outcome" where
  \<open>stringFieldValidation env obj inputs =
     (if isArray inputs then
        first_failure
          (\<lambda>field.
             bindE (js_get env obj field) (\<lambda>v.
               case v of
                 JStr s \<Rightarrow>
                   if length (trim s) = 0 then
                     fail_with env [L ''Field "'', V field, L ''" cannot be an empty string.'']
                   else Inr passing
               | _ \<Rightarrow> fail_with env [L ''Field "'', V field, L ''" is not a string.'']))
          (as_list inputs)
      else
        bindE (destructure inputs) (\<lambda>_.
          let fields = get_prop env inputs ''fields'';
              minLength = get_prop env inputs ''minLength'';
              maxLength = get_prop env inputs ''maxLength'';
              pattern = get_prop env inputs ''pattern''
          in bindE (iterate fields) (\<lambda>fs.
               first_failure
                 (\<lambda>field.
                    bindE (js_get env obj field) (\<lambda>v.
                      case v of
                        JStr s \<Rightarrow>
                          let trimmed = trim s
                          in if below_number (num_of_nat (length trimmed)) minLength then
                               fail_with env [L ''Field "'', V field,
                                              L ''" length is below minimum '', V minLength, L ''.'']
                             else if above_number (num_of_nat (length trimmed)) maxLength then
                               fail_with env [L ''Field "'', V field,
                                              L ''" length exceeds maximum '', V maxLength, L ''.'']
                             else if truthy pattern then
                               bindE (new_RegExp env pattern) (\<lambda>re.
                                 bindE (regexp_test env re (JStr trimmed)) (\<lambda>matches.
                                   if \<not> matches then
                                     fail_with env [L ''Field "'', V field,
                                                    L ''" does not match pattern: '', V pattern]
                                   else Inr passing))
                             else Inr passing
                      | _ \<Rightarrow> fail_with env [L ''Field "'', V field, L ''" is not a string.'']))
                 fs)))\<close>

text \<open>5. Number Field Validation: the list form, then the structured form.\<close>

definition numberFieldValidation :: "'w jsenv \<Rightarrow> jsval \<Rightarrow> jsval \<Rightarrow> jserror + outcome" where
  \<open>numberFieldValidation env obj inputs =
     (if isArray inputs then
        first_failure
          (\<lambda>field.
             bindE (js_get env obj field) (\<lambda>v.
               if typeof v \<noteq> ''number'' then
                 fail_with env [L ''Field "'', V field, L ''" is not a number.'']
               else Inr passing))
          (as_list inputs)
      else
        bindE (destructure inputs) (\<lambda>_.
          let fields = get_prop env inputs ''fields'';
              min = get_prop env inputs ''min'';
              max = get_prop env inputs ''max'';
              integerOnly = default_to (get_prop env inputs ''integerOnly'') (JBool False)
          in bindE (iterate fields) (\<lambda>fs.
               first_failure
                 (\<lambda>field.
                    bindE (js_get env obj field) (\<lambda>v.
                      case v of
                        JNum n \<Rightarrow>
                          if below_number n min then
                            fail_with env [L ''Field "'', V field,
                                           L ''" is below minimum value '', V min, L ''.'']
                          else if above_number n max then
                            fail_with env [L ''Field "'', V field,
                                           L ''" exceeds maximum value '', V max, L ''.'']
                          else if truthy integerOnly \<and> \<not> isInteger n then
                            fail_with env [L ''Field "'', V field, L ''" must be an integer.'']
                          else Inr passing
                      | _ \<Rightarrow> fail_with env [L ''Field "'', V field, L ''" is not a number.'']))
                 fs)))\<close>

text \<open>6. Boolean Field Validation.\<close>

definition booleanFieldValidation :: "'w jsenv \<Rightarrow> jsval \<Rightarrow> jsval \<Rightarrow> jserror + outcome" where
  \<open>booleanFieldValidation env obj inputs =
     first_failure
       (\<lambda>field.
          bindE (js_get env obj field) (\<lambda>v.
            if typeof v \<noteq> ''boolean'' then
              fail_with env [L ''Field "'', V field, L ''" is not a boolean.'']
            else Inr passing))
       (as_list inputs)\<close>

text \<open>7. Array Validation, on a field of the record.\<close>

definition arrayValidation :: "'w jsenv \<Rightarrow> jsval \<Rightarrow> jsval \<Rightarrow> jserror + outcome" where
  \<open>arrayValidation env obj inputs =
     bindE (destructure inputs) (\<lambda>_.
       let field = get_prop env inputs ''field'';
           minLength = get_prop env inputs ''minLength'';
           maxLength = get_prop env inputs ''maxLength'';
           enforceUnique = get_prop env inputs ''enforceUnique''
       in bindE (js_get env obj field) (\<lambda>arr.
            case arr of
              JArr xs \<Rightarrow>
                if below_number (num_of_nat (length xs)) minLength then
                  fail_with env [L ''Array "'', V field,
                                 L ''" length is below minimum '', V minLength, L ''.'']
                else if above_number (num_of_nat (length xs)) maxLength then
                  fail_with env [L ''Array "'', V field,
                                 L ''" length exceeds maximum '', V maxLength, L ''.'']
                else if truthy enforceUnique \<and> set_size xs \<noteq> length xs then
                  fail_with env [L ''Array "'', V field, L ''" contains duplicate elements.'']
                else Inr passing
            | _ \<Rightarrow> fail_with env [L ''Field "'', V field, L ''" is not an array.'']))\<close>

text \<open>8. Nested Object Validation.\<close>

definition nestedObjectValidation :: "'w jsenv \<Rightarrow> jsval \<Rightarrow> jsval \<Rightarrow> jserror + outcome" where
  \<open>nestedObjectValidation env obj inputs =
     bindE (destructure inputs) (\<lambda>_.
       let field = get_prop env inputs ''field'';
           requiredFields = get_prop env inputs ''requiredFields''
       in bindE (js_get env obj field) (\<lambda>nestedObj.
            if typeof nestedObj \<noteq> ''object'' \<or> nestedObj = JNull \<or> isArray nestedObj then
              fail_with env [L ''Field "'', V field, L ''" is not a valid nested object.'']
            else
              bindE (iterate requiredFields) (\<lambda>rfs.
                first_failure
                  (\<lambda>rf.
                     bindE (call_hasOwnProperty env nestedObj rf) (\<lambda>present.
                       if \<not> present then
                         fail_with env [L ''Missing nested field "'', V rf,
                                        L ''" in object "'', V field, L ''".'']
                       else Inr passing))
                  rfs)))\<close>

text \<open>9. Pattern Matching.\<close>

definition patternMatching :: "'w jsenv \<Rightarrow> jsval \<Rightarrow> jsval \<Rightarrow> jserror + outcome" where
  \<open>patternMatching env obj inputs =
     bindE (destructure inputs) (\<lambda>_.
       let field = get_prop env inputs ''field'';
           pattern = get_prop env inputs ''pattern''
       in bindE (new_RegExp env pattern) (\<lambda>regex.
            bindE (js_get env obj field) (\<lambda>v.
              bindE (regexp_test env regex (or_empty v)) (\<lambda>matches.
                if \<not> matches then
                  fail_with env [L ''Field "'', V field,
                                 L ''" does not match pattern: '', V pattern]
                else Inr passing))))\<close>

text \<open>10. Enumeration Validation.\<close>

definition enumerationValidation :: "'w jsenv \<Rightarrow> jsval \<Rightarrow> jsval \<Rightarrow> jserror + outcome" where
  \<open>enumerationValidation env obj inputs =
     bindE (destructure inputs) (\<lambda>_.
       let field = get_prop env inputs ''field'';
           allowedValues = get_prop env inputs ''allowedValues''
       in bindE (js_get env obj field) (\<lambda>val.
            bindE (js_includes env allowedValues val) (\<lambda>found.
              if \<not> found then
                fail_with env [L ''Field "'', V field, L ''" has invalid value: "'', V val,
                               L ''". Allowed: '', V allowedValues]
              else Inr passing)))\<close>


text \<open>11. Date Field Validation.\<close>

definition dateFieldValidation :: "'w jsenv \<Rightarrow> jsval \<Rightarrow> jsval \<Rightarrow> jserror + outcome" where
  \<open>dateFieldValidation env obj inputs =
     bindE (destructure inputs) (\<lambda>_.
       let field = get_prop env inputs ''field'';
           validateActualDate = get_prop env inputs ''validateActualDate''
       in bindE (js_get env obj field) (\<lambda>dateValue.
            case dateValue of
              JStr s \<Rightarrow>
                if truthy validateActualDate \<and> \<not> date_valid env s then
                  fail_with env [L ''Field "'', V field,
                                 L ''" is not a valid date: '', V dateValue]
                else Inr passing
            | _ \<Rightarrow> fail_with env [L ''Field "'', V field, L ''" is not a string date.'']))\<close>

text \<open>
  12. Nullability: the loop over \<^verbatim>\<open>nonNullable\<close>, the loop over \<^verbatim>\<open>nullable\<close>, which runs only
  \<^verbatim>\<open>if (pass)\<close>, and the case that puts them together.
\<close>

definition nonNullCheck :: "'w jsenv \<Rightarrow> jsval \<Rightarrow> jsval list \<Rightarrow> jserror + outcome" where
  \<open>nonNullCheck env obj fs =
     first_failure
       (\<lambda>field.
          bindE (js_get env obj field) (\<lambda>v.
            if v = JNull then
              fail_with env [L ''Field "'', V field, L ''" should not be null.'']
            else Inr passing))
       fs\<close>

definition nullableCheck :: "'w jsenv \<Rightarrow> jsval \<Rightarrow> jsval list \<Rightarrow> jserror + outcome" where
  \<open>nullableCheck env obj ns =
     first_failure
       (\<lambda>field.
          bindE (call_hasOwnProperty env obj field) (\<lambda>present.
            if present then
              bindE (js_get env obj field) (\<lambda>v.
                if v \<noteq> JNull then
                  fail_with env [L ''Field "'', V field, L ''" must be null if present.'']
                else Inr passing)
            else Inr passing))
       ns\<close>

definition nullability :: "'w jsenv \<Rightarrow> jsval \<Rightarrow> jsval \<Rightarrow> jserror + outcome" where
  \<open>nullability env obj inputs =
     bindE (destructure inputs) (\<lambda>_.
       let nonNullable = default_to (get_prop env inputs ''nonNullable'') (JArr []);
           nullable = default_to (get_prop env inputs ''nullable'') (JArr [])
       in bindE (iterate nonNullable) (\<lambda>fs.
            bindE (nonNullCheck env obj fs)
              (\<lambda>r. if pass r then bindE (iterate nullable) (nullableCheck env obj)
                   else Inr r)))\<close>

text \<open>13. Default Values.\<close>

definition defaultValues :: "'w jsenv \<Rightarrow> jsval \<Rightarrow> jsval \<Rightarrow> jserror + outcome" where
  \<open>defaultValues env obj inputs =
     bindE (destructure inputs) (\<lambda>_.
       let field = get_prop env inputs ''field'';
           defaultValue = get_prop env inputs ''defaultValue''
       in bindE (call_hasOwnProperty env obj field) (\<lambda>present.
            if \<not> present then
              fail_with env [L ''Missing field "'', V field,
                             L ''". Expected a default of "'', V defaultValue, L ''".'']
            else Inr passing))\<close>

text \<open>14. Strict Validation.\<close>

definition strictValidation :: "'w jsenv \<Rightarrow> jsval \<Rightarrow> jsval \<Rightarrow> jserror + outcome" where
  \<open>strictValidation env obj inputs =
     bindE (destructure inputs) (\<lambda>_.
       let allowedFields = default_to (get_prop env inputs ''allowedFields'') (JArr [])
       in bindE (new_set allowedFields) (\<lambda>allowedSet.
            bindE (object_keys obj) (\<lambda>keys.
              first_failure
                (\<lambda>key.
                   if \<not> set_has allowedSet (JStr key) then
                     fail_with env [L ''Strict validation failed: unexpected field "'',
                                    V (JStr key), L ''".'']
                   else Inr passing)
                keys)))\<close>

text \<open>15. Custom Logic.\<close>

definition customLogic :: "'w jsenv \<Rightarrow> jsval \<Rightarrow> jsval \<Rightarrow> jserror + outcome" where
  \<open>customLogic env obj inputs =
     bindE (destructure inputs) (\<lambda>_.
       let ifField = get_prop env inputs ''ifField'';
           thenField = get_prop env inputs ''thenField''
       in bindE (js_get env obj ifField) (\<lambda>c.
            if truthy c then
              bindE (js_get env obj thenField) (\<lambda>t.
                if t = JUndefined then
                  fail_with env [L ''If "'', V ifField, L ''" is present, "'', V thenField,
                                 L ''" must be set.'']
                else Inr passing)
            else Inr passing))\<close>

text \<open>16. Data Transformation.\<close>

definition dataTransformation :: "'w jsenv \<Rightarrow> jsval \<Rightarrow> jsval \<Rightarrow> jserror + outcome" where
  \<open>dataTransformation env obj inputs =
     bindE (destructure inputs) (\<lambda>_.
       let field = get_prop env inputs ''field'';
           expectedTypeAfterCoercion = get_prop env inputs ''expectedTypeAfterCoercion''
       in bindE (js_get env obj field) (\<lambda>v.
            if JStr (typeof v) \<noteq> expectedTypeAfterCoercion then
              fail_with env [L ''Field "'', V field, L ''" is not coerced to type "'',
                             V expectedTypeAfterCoercion, L ''".'']
            else Inr passing))\<close>

text \<open>17. Multi-Type Fields.\<close>

definition multiTypeFields :: "'w jsenv \<Rightarrow> jsval \<Rightarrow> jsval \<Rightarrow> jserror + outcome" where
  \<open>multiTypeFields env obj inputs =
     bindE (destructure inputs) (\<lambda>_.
       let field = get_prop env inputs ''field'';
           allowedTypes = get_prop env inputs ''allowedTypes''
       in bindE (js_get env obj field) (\<lambda>v.
            let actualType = typeof v
            in bindE (js_includes env allowedTypes (JStr actualType)) (\<lambda>found.
                 if \<not> found then
                   bindE (to_string env field) (\<lambda>f.
                     bindE (join_method env allowedTypes '', '') (\<lambda>joined.
                       Inr (failing (''Field "'' @ f @ ''" has type "'' @ actualType
                                     @ ''" but must be one of ['' @ joined @ ''].''))))
                 else Inr passing)))\<close>

text \<open>18. Error Messaging.\<close>

definition errorMessaging :: "'w jsenv \<Rightarrow> jsval \<Rightarrow> jsval \<Rightarrow> jserror + outcome" where
  \<open>errorMessaging env obj inputs =
     bindE (destructure inputs) (\<lambda>_.
       let errorField = default_to (get_prop env inputs ''errorField'') (JStr ''error'');
           messageContains = get_prop env inputs ''messageContains''
       in bindE (js_get env obj errorField) (\<lambda>errMsg.
            case errMsg of
              JStr s \<Rightarrow>
                if truthy messageContains then
                  bindE (js_includes env errMsg messageContains) (\<lambda>found.
                    if \<not> found then
                      fail_with env [L ''Error message does not contain: "'', V messageContains,
                                     L ''". Actual: "'', V errMsg, L ''"'']
                    else Inr passing)
                else Inr passing
            | _ \<Rightarrow>
                fail_with env [L ''Expected a string in "'', V errorField, L ''" but got '',
                               V (JStr (typeof errMsg)), L ''.'']))\<close>

text \<open>19. Read-Only Fields.\<close>

definition readOnlyFields :: "'w jsenv \<Rightarrow> jsval \<Rightarrow> jsval \<Rightarrow> jserror + outcome" where
  \<open>readOnlyFields env obj inputs =
     first_failure
       (\<lambda>roField.
          bindE (method_hasOwnProperty env obj roField) (\<lambda>present.
            if present then
              fail_with env [L ''Read-only field "'', V roField,
                             L ''" should not be present or changed.'']
            else Inr passing))
       (as_list inputs)\<close>

text \<open>20. Disallowed Pattern.\<close>

definition disallowedPattern :: "'w jsenv \<Rightarrow> jsval \<Rightarrow> jsval \<Rightarrow> jserror + outcome" where
  \<open>disallowedPattern env obj inputs =
     bindE (destructure inputs) (\<lambda>_.
       let field = get_prop env inputs ''field'';
           pat = get_prop env inputs ''disallowedPattern''
       in bindE (new_RegExp env pat) (\<lambda>re.
            bindE (js_get env obj field) (\<lambda>v.
              bindE (regexp_test env re (or_empty v)) (\<lambda>matches.
                if matches then
                  fail_with env [L ''Field "'', V field,
                                 L ''" has disallowed characters matching: '', V pat]
                else Inr passing))))\<close>


text \<open>
  21. Custom: the bridge to an external validator.  The module is loaded by
  \<^verbatim>\<open>await import(path)\<close>; the value \<^verbatim>\<open>validate\<close> returns is used as it is returned, with no
  \<^verbatim>\<open>await\<close>, so an awaitable is inspected as the promise object it is, which has neither a
  \<^verbatim>\<open>status\<close> nor an \<^verbatim>\<open>error\<close> property.
\<close>

text \<open>\<^verbatim>\<open>const { path, ...rest } = inputs\<close>: the own enumerable properties but \<^verbatim>\<open>path\<close>.\<close>

definition rest_without :: "string \<Rightarrow> jsval \<Rightarrow> jsval" where
  "rest_without key inputs = JObj (filter (\<lambda>(k, v). k \<noteq> key) (own_entries inputs))"

fun ret_truthy :: "cvret \<Rightarrow> bool" where
  "ret_truthy (Returned v) = truthy v"
| "ret_truthy (Awaitable p) = True"

fun ret_prop :: "'w jsenv \<Rightarrow> cvret \<Rightarrow> string \<Rightarrow> jsval" where
  "ret_prop env (Returned v) k = get_prop env v k"
| "ret_prop env (Awaitable p) k = JUndefined"

definition judge :: "'w jsenv \<Rightarrow> cvret \<Rightarrow> outcome" where
  \<open>judge env result =
     (if \<not> ret_truthy result
         \<or> typeof (ret_prop env result ''status'') \<noteq> ''boolean''
         \<or> typeof (ret_prop env result ''error'') \<noteq> ''string''
      then failing (''Custom script returned invalid structure. ''
                    @ ''Must be { status: boolean, error: string }.'')
      else if ret_prop env result ''status'' = JBool True then passing
      else (case ret_prop env result ''error'' of
              JStr e \<Rightarrow> failing (if e \<noteq> [] then e else ''Custom assertion script failed.'')
            | _ \<Rightarrow> failing ''Custom assertion script failed.''))\<close>

text \<open>The \<^verbatim>\<open>catch (err)\<close> of the bridge: reading \<^verbatim>\<open>err.message\<close> of a thrown null or
  undefined throws in its turn, out of the bridge.\<close>

definition custom_caught :: "'w jsenv \<Rightarrow> jsval \<Rightarrow> jserror + outcome" where
  "custom_caught env err =
     bindE (js_get env err (JStr ''message'')) (\<lambda>m.
       fail_with env [L ''Error running custom assertion script: '', V m])"

definition custom :: "'w jsenv \<Rightarrow> jsval \<Rightarrow> jsval \<Rightarrow> 'w \<Rightarrow> (jserror + outcome) \<times> 'w" where
  \<open>custom env obj inputs w =
     (case destructure inputs of
        Inl e \<Rightarrow> (Inl e, w)
      | Inr _ \<Rightarrow>
          let path = get_prop env inputs ''path'';
              rest = rest_without ''path'' inputs
          in case import_module env path w of
               (Inl err, w1) \<Rightarrow> (custom_caught env err, w1)
             | (Inr customModule, w1) \<Rightarrow>
                 (case customModule of
                    Callable validate \<Rightarrow>
                      (case validate obj rest w1 of
                         (Inl err, w2) \<Rightarrow> (custom_caught env err, w2)
                       | (Inr result, w2) \<Rightarrow> (Inr (judge env result), w2))
                  | _ \<Rightarrow>
                      (Inr (failing ''Custom script does not export a 'validate' function.''),
                       w1)))\<close>

section \<open>validateObjectLevel\<close>

definition validateObjectLevel ::
  "'w jsenv \<Rightarrow> jsval \<Rightarrow> string \<Rightarrow> jsval \<Rightarrow> 'w \<Rightarrow> (jserror + outcome) \<times> 'w" where
  \<open>validateObjectLevel env obj assertion inputs w =
     (if assertion = ''Schema Compliance'' then (schemaCompliance env obj inputs, w)
      else if assertion = ''Required Fields'' then (requiredFields env obj inputs, w)
      else if assertion = ''No Additional Fields'' then (noAdditionalFields env obj inputs, w)
      else if assertion = ''String Field Validation'' then (stringFieldValidation env obj inputs, w)
      else if assertion = ''Number Field Validation'' then (numberFieldValidation env obj inputs, w)
      else if assertion = ''Boolean Field Validation'' then (booleanFieldValidation env obj inputs, w)
      else if assertion = ''Array Validation'' then (arrayValidation env obj inputs, w)
      else if assertion = ''Nested Object Validation'' then (nestedObjectValidation env obj inputs, w)
      else if assertion = ''Pattern Matching'' then (patternMatching env obj inputs, w)
      else if assertion = ''Enumeration Validation'' then (enumerationValidation env obj inputs, w)
      else if assertion = ''Date Field Validation'' then (dateFieldValidation env obj inputs, w)
      else if assertion = ''Nullability'' then (nullability env obj inputs, w)
      else if assertion = ''Default Values'' then (defaultValues env obj inputs, w)
      else if assertion = ''Strict Validation'' then (strictValidation env obj inputs, w)
      else if assertion = ''Custom Logic'' then (customLogic env obj inputs, w)
      else if assertion = ''Data Transformation'' then (dataTransformation env obj inputs, w)
      else if assertion = ''Multi-Type Fields'' then (multiTypeFields env obj inputs, w)
      else if assertion = ''Error Messaging'' then (errorMessaging env obj inputs, w)
      else if assertion = ''Read-Only Fields'' then (readOnlyFields env obj inputs, w)
      else if assertion = ''Disallowed Pattern'' then (disallowedPattern env obj inputs, w)
      else if assertion = ''Custom'' then custom env obj inputs w
      else (Inr \<lparr>pass = True,
                  msg = ''Unrecognized assertion type: "'' @ assertion @ ''". Skipping.''\<rparr>, w))\<close>

text \<open>The catalog of recognized kinds: the case labels of the switch.\<close>

definition catalog :: "string list" where
  "catalog =
     [''Schema Compliance'', ''Required Fields'', ''No Additional Fields'',
      ''String Field Validation'', ''Number Field Validation'', ''Boolean Field Validation'',
      ''Array Validation'', ''Nested Object Validation'', ''Pattern Matching'',
      ''Enumeration Validation'', ''Date Field Validation'', ''Nullability'',
      ''Default Values'', ''Strict Validation'', ''Custom Logic'', ''Data Transformation'',
      ''Multi-Type Fields'', ''Error Messaging'', ''Read-Only Fields'', ''Disallowed Pattern'',
      ''Custom'']"

section \<open>validateOnArrayItems\<close>

text \<open>
  The loop over the items, each awaited in turn: the failing indices with their
  sub-messages, in the order of the pushes.  An item that is not an object is wrapped as
  \<^verbatim>\<open>{ value: item }\<close>.  An exception of one item rejects the whole call.
\<close>

fun collect_failures ::
  "'w jsenv \<Rightarrow> string \<Rightarrow> jsval \<Rightarrow> nat \<Rightarrow> jsval list \<Rightarrow> 'w
     \<Rightarrow> (jserror + (nat \<times> string) list) \<times> 'w" where
  "collect_failures env assertion inputs i [] w = (Inr [], w)"
| "collect_failures env assertion inputs i (item # items) w =
     (let obj = (if typeof item \<noteq> ''object'' \<or> item = JNull
                 then JObj [(''value'', item)] else item)
      in case validateObjectLevel env obj assertion inputs w of
           (Inl e, w1) \<Rightarrow> (Inl e, w1)
         | (Inr r, w1) \<Rightarrow>
             (case collect_failures env assertion inputs (Suc i) items w1 of
                (Inl e, w2) \<Rightarrow> (Inl e, w2)
              | (Inr fs, w2) \<Rightarrow>
                  (Inr (if \<not> pass r
                        then (i, ''Index '' @ show_nat i @ '': '' @ msg r) # fs
                        else fs), w2)))"

definition validateOnArrayItems ::
  "'w jsenv \<Rightarrow> jsval list \<Rightarrow> string \<Rightarrow> jsval \<Rightarrow> 'w \<Rightarrow> (jserror + outcome) \<times> 'w" where
  "validateOnArrayItems env arrayData assertion inputs w =
     (case collect_failures env assertion inputs 0 arrayData w of
        (Inl e, w1) \<Rightarrow> (Inl e, w1)
      | (Inr fs, w1) \<Rightarrow>
          (let failedIndices = map fst fs; subMessages = map snd fs
           in if length failedIndices > 0 then
                (Inr (failing (''Item(s) at index ['' @ join '', '' (map show_nat failedIndices)
                               @ ''] failed. Reasons: '' @ join '' | '' subMessages)), w1)
              else (Inr passing, w1)))"

section \<open>runAssertions\<close>

definition classifyAssertion :: "string \<Rightarrow> bool \<times> bool" where
  "classifyAssertion assertionType =
     (let arrayAssertions = [''Array Validation'']
      in (assertionType \<in> set arrayAssertions, assertionType \<notin> set arrayAssertions))"

text \<open>
  The value of a call of an async function that is not awaited: a promise.  Whatever the
  call computes, the promise object answers a property read with a member of the promise
  prototype or with undefined.
\<close>

datatype 'a promise = Promise 'a

definition promise_prop :: "'a promise \<Rightarrow> string \<Rightarrow> jsval" where
  "promise_prop p k =
     (if k \<in> set ([''then'', ''catch'', ''finally''] @ object_prototype_keys)
      then JNative k else JUndefined)"

record assertionObj =
  assertion :: string
  inputs :: jsval

record assertionResult =
  result_assertion :: string
  passed :: bool
  message :: jsval

text \<open>
  The body of the loop: one spec, one result.  \<open>settle\<close> is the
  \<^verbatim>\<open>if (!pass) { passed = false; message = msg; }\<close> that follows each awaited or synchronous
  call; \<open>caught\<close> is the \<^verbatim>\<open>catch (err)\<close> around the dispatch.  On a collection, the call of
  \<open>validateOnArrayItems\<close> is not awaited: \<^verbatim>\<open>pass\<close> and \<^verbatim>\<open>msg\<close> are read off the promise, and
  what the call goes on to do happens after the run has returned.
\<close>

definition settle :: "string \<Rightarrow> outcome \<Rightarrow> assertionResult" where
  "settle a r =
     (if \<not> pass r
      then \<lparr>result_assertion = a, passed = False, message = JStr (msg r)\<rparr>
      else \<lparr>result_assertion = a, passed = True, message = JStr ''Assertion passed.''\<rparr>)"

definition caught :: "string \<Rightarrow> jserror \<Rightarrow> assertionResult" where
  \<open>caught a err =
     \<lparr>result_assertion = a, passed = False,
      message = JStr (''Error during assertion "'' @ a @ ''": '' @ error_message err)\<rparr>\<close>

definition runAssertion ::
  "'w jsenv \<Rightarrow> jsval \<Rightarrow> assertionObj \<Rightarrow> 'w \<Rightarrow> assertionResult \<times> 'w" where
  \<open>runAssertion env responseData assertionObj w =
     (let a = assertion assertionObj; ins = inputs assertionObj
      in case responseData of
           JArr arrayData \<Rightarrow>
             (let (arrayCheck, objectCheck) = classifyAssertion a
              in if arrayCheck then
                   (case validateArrayLevel env arrayData a ins of
                      Inl err \<Rightarrow> (caught a err, w)
                    | Inr r \<Rightarrow> (settle a r, w))
                 else if objectCheck then
                   (let pending = Promise (validateOnArrayItems env arrayData a ins w);
                        pass = promise_prop pending ''pass'';
                        msg = promise_prop pending ''msg''
                    in if \<not> truthy pass
                       then (\<lparr>result_assertion = a, passed = False, message = msg\<rparr>, w)
                       else (\<lparr>result_assertion = a, passed = True,
                               message = JStr ''Assertion passed.''\<rparr>, w))
                 else
                   (\<lparr>result_assertion = a, passed = True,
                     message = JStr (''Unrecognized assertion type: "'' @ a @ ''". Skipping.'')\<rparr>,
                    w))
         | _ \<Rightarrow>
             (case validateObjectLevel env responseData a ins w of
                (Inl err, w1) \<Rightarrow> (caught a err, w1)
              | (Inr r, w1) \<Rightarrow> (settle a r, w1)))\<close>

fun runAssertions ::
  "'w jsenv \<Rightarrow> jsval \<Rightarrow> assertionObj list \<Rightarrow> 'w \<Rightarrow> assertionResult list \<times> 'w" where
  "runAssertions env responseData [] w = ([], w)"
| "runAssertions env responseData (assertionObj # rest) w =
     (let (r, w1) = runAssertion env responseData assertionObj w;
          (rs, w2) = runAssertions env responseData rest w1
      in (r # rs, w2))"


section \<open>The run on a store\<close>

text \<open>
  Above, the response and the specs are values.  To say that a run leaves them as they
  were, they are put where a program could change them: in a store of cells, one for the
  response body, one for the array of specs, and one for each array of results a run
  creates.  The world an external validator may change is now this store (with whatever
  lies outside the engine), so a validator that writes into the record it was handed is a
  validator that writes the cell of the response.  The runner of the source is read
  against the store: \<^verbatim>\<open>const results = []\<close> allocates a cell, \<^verbatim>\<open>for (... of assertions)\<close>
  asks the live array for its next element at every step, each evaluator is handed what
  the response cell holds when it is called, and \<^verbatim>\<open>results.push\<close> writes the cell of the
  results.  An array stays an array whatever is written into it, so the test of
  \<^verbatim>\<open>Array.isArray(responseData)\<close> made once before the loop is the test \<open>runAssertion\<close>
  makes at each step.  A validator may make the array of specs grow without end; the
  loop takes fuel, and running out of it is the answer \<open>None\<close>.
\<close>

type_synonym addr = nat

datatype cell =
    Data jsval
  | Specs "assertionObj list"
  | Results "assertionResult list"

record 'x store =
  cells :: "addr \<Rightarrow> cell option"
  next_addr :: addr
  outside :: 'x

definition alloc :: "cell \<Rightarrow> 'x store \<Rightarrow> addr \<times> 'x store" where
  "alloc c h =
     (next_addr h,
      h\<lparr>cells := (cells h)(next_addr h \<mapsto> c), next_addr := Suc (next_addr h)\<rparr>)"

definition read_data :: "'x store \<Rightarrow> addr \<Rightarrow> jsval" where
  "read_data h a = (case cells h a of Some (Data d) \<Rightarrow> d | _ \<Rightarrow> JUndefined)"

definition read_specs :: "'x store \<Rightarrow> addr \<Rightarrow> assertionObj list" where
  "read_specs h a = (case cells h a of Some (Specs ss) \<Rightarrow> ss | _ \<Rightarrow> [])"

definition push_result :: "addr \<Rightarrow> assertionResult \<Rightarrow> 'x store \<Rightarrow> 'x store" where
  "push_result a r h =
     (case cells h a of
        Some (Results rs) \<Rightarrow> h\<lparr>cells := (cells h)(a \<mapsto> Results (rs @ [r]))\<rparr>
      | _ \<Rightarrow> h)"

fun run_loop ::
  "('x store) jsenv \<Rightarrow> addr \<Rightarrow> addr \<Rightarrow> addr \<Rightarrow> nat \<Rightarrow> nat \<Rightarrow> 'x store \<Rightarrow> bool \<times> 'x store" where
  "run_loop env responseData assertions results 0 i h = (False, h)"
| "run_loop env responseData assertions results (Suc fuel) i h =
     (if i < length (read_specs h assertions) then
        (let assertionObj = read_specs h assertions ! i;
             (r, h1) = runAssertion env (read_data h responseData) assertionObj h
         in run_loop env responseData assertions results fuel (Suc i)
              (push_result results r h1))
      else (True, h))"

definition runAssertions_store ::
  "('x store) jsenv \<Rightarrow> addr \<Rightarrow> addr \<Rightarrow> nat \<Rightarrow> 'x store \<Rightarrow> addr option \<times> 'x store" where
  "runAssertions_store env responseData assertions fuel h =
     (let (results, h0) = alloc (Results []) h;
          (finished, h1) = run_loop env responseData assertions results fuel 0 h0
      in (if finished then Some results else None, h1))"

section \<open>A runtime to evaluate the code at concrete inputs\<close>

text \<open>
  A small runtime for the closed examples below: values inherit nothing beyond
  \<^verbatim>\<open>Object.prototype\<close>, every pattern compiles and matches, every date parses.  The world is
  the number of validator calls made so far, and the module loader knows these modules:
  \<^verbatim>\<open>./ok.js\<close> returns \<^verbatim>\<open>{status: true, error: ""}\<close>, \<^verbatim>\<open>./async.js\<close> returns a promise of the
  same object, \<^verbatim>\<open>./bad.js\<close> returns \<^verbatim>\<open>{status: false, error: "bad"}\<close>, \<^verbatim>\<open>./shape.js\<close> returns
  \<^verbatim>\<open>{status: "yes"}\<close>, \<^verbatim>\<open>./throws.js\<close> throws an error with the message \<^verbatim>\<open>boom\<close>,
  \<^verbatim>\<open>./noexport.js\<close> exports no \<^verbatim>\<open>validate\<close>, \<^verbatim>\<open>./notfn.js\<close> exports one that is not a
  function; importing anything else rejects with an error \<^verbatim>\<open>Cannot find module\<close>.
\<close>

definition error_object :: "string \<Rightarrow> jsval" where
  "error_object m = JObj [(''message'', JStr m)]"

definition test_modules :: "jsval \<Rightarrow> nat \<Rightarrow> (jsval + nat jsexport) \<times> nat" where
  "test_modules path w =
     (if path = JStr ''./ok.js'' then
        (Inr (Callable (\<lambda>obj rest n.
           (Inr (Returned (JObj [(''status'', JBool True), (''error'', JStr [])])), Suc n))), w)
      else if path = JStr ''./async.js'' then
        (Inr (Callable (\<lambda>obj rest n.
           (Inr (Awaitable (Inr (JObj [(''status'', JBool True), (''error'', JStr [])]))),
            Suc n))), w)
      else if path = JStr ''./bad.js'' then
        (Inr (Callable (\<lambda>obj rest n.
           (Inr (Returned (JObj [(''status'', JBool False), (''error'', JStr ''bad'')])),
            Suc n))), w)
      else if path = JStr ''./shape.js'' then
        (Inr (Callable (\<lambda>obj rest n.
           (Inr (Returned (JObj [(''status'', JStr ''yes'')])), Suc n))), w)
      else if path = JStr ''./throws.js'' then
        (Inr (Callable (\<lambda>obj rest n. (Inl (error_object ''boom''), Suc n))), w)
      else if path = JStr ''./noexport.js'' then (Inr Missing, w)
      else if path = JStr ''./notfn.js'' then (Inr NotCallable, w)
      else (Inl (error_object ''Cannot find module''), w))"

definition test_runtime :: "nat jsenv" where
  "test_runtime =
     \<lparr>proto_extra = (\<lambda>v k. False),
      native_own = (\<lambda>n k. False),
      native_to_string = (\<lambda>n. ''function '' @ n @ ''() { [native code] }''),
      num_to_string = (\<lambda>q. ''?''),
      regexp_compile = (\<lambda>src. Inr (\<lambda>s. True)),
      date_valid = (\<lambda>s. True),
      import_module = test_modules\<rparr>"

text \<open>
  The same runtime over a store, with one module: the validator of \<^verbatim>\<open>./clear.js\<close> deletes
  every field of the record it is handed, which is the response held in cell 0, and
  reports success.
\<close>

definition store_modules ::
  "jsval \<Rightarrow> unit store \<Rightarrow> (jsval + (unit store) jsexport) \<times> unit store" where
  "store_modules path h =
     (if path = JStr ''./clear.js'' then
        (Inr (Callable (\<lambda>obj rest g.
           (Inr (Returned (JObj [(''status'', JBool True), (''error'', JStr [])])),
            g\<lparr>cells := (cells g)(0 \<mapsto> Data (JObj []))\<rparr>))), h)
      else (Inl (error_object ''Cannot find module''), h))"

definition store_runtime :: "(unit store) jsenv" where
  "store_runtime =
     \<lparr>proto_extra = (\<lambda>v k. False),
      native_own = (\<lambda>n k. False),
      native_to_string = (\<lambda>n. ''function '' @ n @ ''() { [native code] }''),
      num_to_string = (\<lambda>q. ''?''),
      regexp_compile = (\<lambda>src. Inr (\<lambda>s. True)),
      date_valid = (\<lambda>s. True),
      import_module = store_modules\<rparr>"

text \<open>A store with the response \<^verbatim>\<open>{id: 1}\<close> in cell 0 and the given specs in cell 1.\<close>

definition example_store :: "assertionObj list \<Rightarrow> unit store" where
  "example_store specs =
     \<lparr>cells = [0 \<mapsto> Data (JObj [(''id'', JNum (Fin 1))]), 1 \<mapsto> Specs specs],
      next_addr = 2, outside = ()\<rparr>"

section \<open>Basic facts\<close>

lemma bindE_Inr [simp]: "bindE (Inr x) f = f x"
  by (simp add: bindE_def)

lemma bindE_Inl [simp]: "bindE (Inl e) f = Inl e"
  by (simp add: bindE_def)

lemma pass_passing [simp]: "pass passing = True"
  by (simp add: passing_def)

lemma pass_failing [simp]: "pass (failing m) = False"
  by (simp add: failing_def)

lemma show_nat_digit: "n < 10 \<Longrightarrow> show_nat n = [digit_char n]"
  by (simp add: show_nat.simps)

subsection \<open>The runner pushes one result per spec\<close>

lemma runAssertion_kind:
  "result_assertion (fst (runAssertion env responseData spec w)) = assertion spec"
  unfolding runAssertion_def Let_def settle_def caught_def
  by (simp split: jsval.splits prod.splits sum.splits)

lemma runAssertions_kinds:
  "map result_assertion (fst (runAssertions env responseData specs w)) = map assertion specs"
proof (induction specs arbitrary: w)
  case Nil
  show ?case by simp
next
  case (Cons spec specs)
  obtain r w1 where step: "runAssertion env responseData spec w = (r, w1)"
    by (cases "runAssertion env responseData spec w")
  obtain rs w2 where tail: "runAssertions env responseData specs w1 = (rs, w2)"
    by (cases "runAssertions env responseData specs w1")
  have "result_assertion r = assertion spec"
    using runAssertion_kind [of env responseData spec w] step by simp
  moreover have "map result_assertion rs = map assertion specs"
    using Cons.IH [of w1] tail by simp
  ultimately show ?case
    using step tail by simp
qed

subsection \<open>The array-level evaluator\<close>

lemma validateArrayLevel_bounds:
  assumes "\<not> nullish ins"
  shows "\<exists>r. validateArrayLevel env xs ''Array Validation'' ins = Inr r
           \<and> pass r = (\<not> below_number (num_of_nat (length xs)) (get_prop env ins ''minLength'')
                       \<and> \<not> above_number (num_of_nat (length xs)) (get_prop env ins ''maxLength''))"
  using assms
  by (auto simp: validateArrayLevel_def destructure_def Let_def fail_with_def
      below_number_def above_number_def failing_def split: jsval.splits)

lemma validateArrayLevel_length_only:
  "length xs = length ys \<Longrightarrow>
   validateArrayLevel env xs kind ins = validateArrayLevel env ys kind ins"
  by (simp add: validateArrayLevel_def)

subsection \<open>The test runtime\<close>

lemma test_runtime_proto [simp]: "proto_extra test_runtime v k = False"
  by (simp add: test_runtime_def)

lemma test_runtime_native_own [simp]: "native_own test_runtime n k = False"
  by (simp add: test_runtime_def)

subsection \<open>The non-null loop of Nullability\<close>

lemma get_prop_JObj_null:
  "(get_prop env (JObj kvs) k = JNull) = (map_of kvs k = Some JNull)"
  by (auto simp: get_prop_def split: option.splits)

lemma nonNullCheck_first_null:
  \<open>nonNullCheck env (JObj kvs) (map JStr fs) =
     (case find (\<lambda>f. map_of kvs f = Some JNull) fs of
        None \<Rightarrow> Inr passing
      | Some f \<Rightarrow> Inr (failing (''Field "'' @ f @ ''" should not be null.'')))\<close>
proof (induction fs)
  case Nil
  show ?case by (simp add: nonNullCheck_def)
next
  case (Cons f fs)
  then show ?case
    by (simp add: nonNullCheck_def js_get_def get_prop_JObj_null fail_with_def)
qed

lemma nonNullCheck_pass:
  "\<exists>r. nonNullCheck env (JObj kvs) (map JStr fs) = Inr r
       \<and> pass r = (\<forall>f \<in> set fs. map_of kvs f \<noteq> Some JNull)"
proof (cases "find (\<lambda>f. map_of kvs f = Some JNull) fs")
  case None
  then have "\<forall>f \<in> set fs. map_of kvs f \<noteq> Some JNull"
    by (simp add: find_None_iff)
  with None show ?thesis
    by (simp add: nonNullCheck_first_null)
next
  case (Some f)
  then have "f \<in> set fs \<and> map_of kvs f = Some JNull"
    by (auto simp: find_Some_iff)
  with Some show ?thesis
    by (auto simp: nonNullCheck_first_null)
qed

lemma nullability_by_non_null:
  assumes "\<not> nullish ins"
    and "get_prop env ins ''nonNullable'' = JArr (map JStr fs)"
  shows "nullability env (JObj kvs) ins =
           (case find (\<lambda>f. map_of kvs f = Some JNull) fs of
              None \<Rightarrow> bindE (iterate (default_to (get_prop env ins ''nullable'') (JArr [])))
                        (nullableCheck env (JObj kvs))
            | Some f \<Rightarrow> nonNullCheck env (JObj kvs) (map JStr fs))"
  using assms
  by (cases "find (\<lambda>f. map_of kvs f = Some JNull) fs")
     (simp_all add: nullability_def destructure_def default_to_def Let_def
        nonNullCheck_first_null)

subsection \<open>The runner on a record\<close>

text \<open>On a response that is not a collection the runner awaits the object-level evaluator,
  settles its outcome and catches its exception.\<close>

lemma runAssertion_record:
  "\<not> isArray d \<Longrightarrow>
   runAssertion env d spec w =
     (case validateObjectLevel env d (assertion spec) (inputs spec) w of
        (Inl err, w1) \<Rightarrow> (caught (assertion spec) err, w1)
      | (Inr r, w1) \<Rightarrow> (settle (assertion spec) r, w1))"
  by (cases d) (simp_all add: runAssertion_def Let_def)

subsection \<open>The custom check bridge, case by case\<close>

lemma validateObjectLevel_Custom:
  "validateObjectLevel env obj ''Custom'' ins w = custom env obj ins w"
  by (simp add: validateObjectLevel_def)

lemma custom_import_rejected:
  "\<not> nullish ins \<Longrightarrow> import_module env (get_prop env ins ''path'') w = (Inl err, w1) \<Longrightarrow>
   custom env obj ins w = (custom_caught env err, w1)"
  by (simp add: custom_def destructure_def)

lemma custom_missing:
  "\<not> nullish ins \<Longrightarrow> import_module env (get_prop env ins ''path'') w = (Inr Missing, w1) \<Longrightarrow>
   custom env obj ins w
     = (Inr (failing ''Custom script does not export a 'validate' function.''), w1)"
  by (simp add: custom_def destructure_def)

lemma custom_not_callable:
  "\<not> nullish ins \<Longrightarrow> import_module env (get_prop env ins ''path'') w = (Inr NotCallable, w1) \<Longrightarrow>
   custom env obj ins w
     = (Inr (failing ''Custom script does not export a 'validate' function.''), w1)"
  by (simp add: custom_def destructure_def)

lemma custom_throws:
  "\<not> nullish ins \<Longrightarrow>
   import_module env (get_prop env ins ''path'') w = (Inr (Callable validate), w1) \<Longrightarrow>
   validate obj (rest_without ''path'' ins) w1 = (Inl err, w2) \<Longrightarrow>
   custom env obj ins w = (custom_caught env err, w2)"
  by (simp add: custom_def destructure_def)

lemma custom_returns:
  "\<not> nullish ins \<Longrightarrow>
   import_module env (get_prop env ins ''path'') w = (Inr (Callable validate), w1) \<Longrightarrow>
   validate obj (rest_without ''path'' ins) w1 = (Inr ret, w2) \<Longrightarrow>
   custom env obj ins w = (Inr (judge env ret), w2)"
  by (simp add: custom_def destructure_def)

lemma custom_caught_message:
  "js_get env err (JStr ''message'') = Inr (JStr m) \<Longrightarrow>
   custom_caught env err = Inr (failing (''Error running custom assertion script: '' @ m))"
  by (simp add: custom_caught_def fail_with_def)

lemma custom_caught_fails:
  "(\<exists>e. custom_caught env err = Inl e) \<or> (\<exists>m. custom_caught env err = Inr (failing m))"
  by (cases "js_get env err (JStr ''message'')"; cases "to_string env (projr (js_get env err (JStr ''message'')))")
     (auto simp: custom_caught_def fail_with_def)

lemma settle_failing:
  "settle a (failing m) = \<lparr>result_assertion = a, passed = False, message = JStr m\<rparr>"
  by (simp add: settle_def failing_def)

lemma settle_passing:
  "settle a passing = \<lparr>result_assertion = a, passed = True, message = JStr ''Assertion passed.''\<rparr>"
  by (simp add: settle_def passing_def)

lemma judge_awaitable:
  "judge env (Awaitable p)
   = failing ''Custom script returned invalid structure. Must be { status: boolean, error: string }.''"
  by (simp add: judge_def)

lemma judge_invalid:
  "\<not> ret_truthy ret \<or> typeof (ret_prop env ret ''status'') \<noteq> ''boolean''
     \<or> typeof (ret_prop env ret ''error'') \<noteq> ''string'' \<Longrightarrow>
   judge env ret
   = failing ''Custom script returned invalid structure. Must be { status: boolean, error: string }.''"
  by (auto simp add: judge_def)

lemma get_prop_own: "map_of kvs k = Some v \<Longrightarrow> get_prop env (JObj kvs) k = v"
  by (simp add: get_prop_def)

lemma judge_status_true:
  "map_of kvs ''status'' = Some (JBool True) \<Longrightarrow> map_of kvs ''error'' = Some (JStr s) \<Longrightarrow>
   judge env (Returned (JObj kvs)) = passing"
  by (simp add: judge_def get_prop_own)

lemma judge_status_false:
  "map_of kvs ''status'' = Some (JBool False) \<Longrightarrow> map_of kvs ''error'' = Some (JStr s) \<Longrightarrow>
   s \<noteq> [] \<Longrightarrow> judge env (Returned (JObj kvs)) = failing s"
  by (simp add: judge_def get_prop_own)

lemma caught_failed:
  "passed (caught a e) = False \<and> (\<exists>m. message (caught a e) = JStr m)"
  by (simp add: caught_def)

lemma custom_caught_settled:
  assumes "\<not> isArray d" and "validateObjectLevel env d a ins w = (custom_caught env err, w1)"
  shows "\<exists>r. runAssertion env d \<lparr>assertion = a, inputs = ins\<rparr> w = (r, w1)
           \<and> passed r = False \<and> (\<exists>m. message r = JStr m)
           \<and> (\<forall>m. js_get env err (JStr ''message'') = Inr (JStr m) \<longrightarrow>
                 r = \<lparr>result_assertion = a, passed = False,
                       message = JStr (''Error running custom assertion script: '' @ m)\<rparr>)"
proof -
  from custom_caught_fails [of env err] show ?thesis
  proof
    assume "\<exists>e. custom_caught env err = Inl e"
    then obtain e where e: "custom_caught env err = Inl e" ..
    have no_msg: "\<And>m. js_get env err (JStr ''message'') \<noteq> Inr (JStr m)"
      using e custom_caught_message [of env err] by auto
    show ?thesis
      using assms e no_msg caught_failed [of a e]
      by (simp add: runAssertion_record)
  next
    assume "\<exists>m. custom_caught env err = Inr (failing m)"
    then obtain m0 where m0: "custom_caught env err = Inr (failing m0)" ..
    have same: "\<And>m. js_get env err (JStr ''message'') = Inr (JStr m) \<Longrightarrow>
                  m0 = ''Error running custom assertion script: '' @ m"
      using m0 custom_caught_message [of env err] by (simp add: failing_def)
    show ?thesis
      using assms m0 same
      by (auto simp: runAssertion_record settle_failing)
  qed
qed

subsection \<open>Effects are confined to Custom\<close>

lemma validateObjectLevel_confined:
  "a \<noteq> ''Custom'' \<Longrightarrow>
   validateObjectLevel env obj a ins w = (fst (validateObjectLevel env obj a ins w0), w)"
  by (simp add: validateObjectLevel_def)

lemma runAssertion_confined:
  assumes "assertion spec \<noteq> ''Custom''"
  shows "runAssertion env d spec w = (fst (runAssertion env d spec w0), w)"
proof (cases "isArray d")
  case True
  then obtain xs where d: "d = JArr xs"
    by (cases d) simp_all
  show ?thesis
    unfolding d runAssertion_def Let_def
    by (simp add: promise_prop_def split: prod.splits sum.splits)
next
  case False
  obtain x where x: "fst (validateObjectLevel env d (assertion spec) (inputs spec) w0) = x"
    by simp
  have at_w: "validateObjectLevel env d (assertion spec) (inputs spec) w = (x, w)"
    using validateObjectLevel_confined [OF assms, of env d "inputs spec" w w0] x by simp
  have at_w0: "validateObjectLevel env d (assertion spec) (inputs spec) w0 = (x, w0)"
    using validateObjectLevel_confined [OF assms, of env d "inputs spec" w0 w0] x by simp
  show ?thesis
    using False at_w at_w0
    by (cases x) (simp_all add: runAssertion_record)
qed

lemma runAssertions_confined:
  "list_all (\<lambda>s. assertion s \<noteq> ''Custom'') specs \<Longrightarrow>
   runAssertions env d specs w = (fst (runAssertions env d specs w0), w)"
proof (induction specs arbitrary: w w0)
  case Nil
  show ?case by simp
next
  case (Cons spec specs)
  from Cons.prems have head: "assertion spec \<noteq> ''Custom''"
    and rest: "list_all (\<lambda>s. assertion s \<noteq> ''Custom'') specs"
    by simp_all
  obtain r where r: "fst (runAssertion env d spec w0) = r"
    by simp
  obtain rs where rs: "fst (runAssertions env d specs w0) = rs"
    by simp
  have tail: "runAssertions env d specs w = (rs, w)"
    using Cons.IH [OF rest, of w w0] rs by simp
  have tail0: "runAssertions env d specs w0 = (rs, w0)"
    using Cons.IH [OF rest, of w0 w0] rs by simp
  have h: "runAssertion env d spec w = (r, w)"
    using runAssertion_confined [OF head, of env d w w0] r by simp
  have h0: "runAssertion env d spec w0 = (r, w0)"
    using runAssertion_confined [OF head, of env d w0 w0] r by simp
  have "runAssertions env d (spec # specs) w = (r # rs, w)"
    by (simp add: h tail)
  moreover have "runAssertions env d (spec # specs) w0 = (r # rs, w0)"
    by (simp add: h0 tail0)
  ultimately show ?case
    by simp
qed

subsection \<open>The runner on a collection\<close>

text \<open>
  For every kind but Array Validation the runner reads \<^verbatim>\<open>pass\<close> and \<^verbatim>\<open>msg\<close> off the promise
  of \<open>validateOnArrayItems\<close>: both are undefined, whatever the collection and the spec.
\<close>

lemma runAssertion_collection_item_level:
  "assertion spec \<noteq> ''Array Validation'' \<Longrightarrow>
   runAssertion env (JArr xs) spec w
   = (\<lparr>result_assertion = assertion spec, passed = False, message = JUndefined\<rparr>, w)"
  by (simp add: runAssertion_def classifyAssertion_def promise_prop_def
      object_prototype_keys_def)

subsection \<open>Kinds outside the catalog\<close>

lemma validateObjectLevel_unrecognized:
  \<open>a \<notin> set catalog \<Longrightarrow>
   validateObjectLevel env obj a ins w
   = (Inr \<lparr>pass = True, msg = ''Unrecognized assertion type: "'' @ a @ ''". Skipping.''\<rparr>, w)\<close>
  by (simp add: validateObjectLevel_def catalog_def)

lemma runAssertion_unrecognized_record:
  "a \<notin> set catalog \<Longrightarrow> \<not> isArray d \<Longrightarrow>
   runAssertion env d \<lparr>assertion = a, inputs = ins\<rparr> w
   = (\<lparr>result_assertion = a, passed = True, message = JStr ''Assertion passed.''\<rparr>, w)"
  by (simp add: runAssertion_record validateObjectLevel_unrecognized settle_def)

subsection \<open>Isolation of one spec from the next\<close>

text \<open>
  On a record, an exception of one spec becomes its failed result and the run goes on
  with the remaining specs.
\<close>

lemma runAssertion_isolates_record:
  "\<not> isArray d \<Longrightarrow> validateObjectLevel env d a ins w = (Inl err, w1) \<Longrightarrow>
   runAssertions env d (\<lparr>assertion = a, inputs = ins\<rparr> # rest) w
   = (caught a err # fst (runAssertions env d rest w1), snd (runAssertions env d rest w1))"
  by (simp add: runAssertion_record split: prod.splits)

text \<open>A Custom spec is the one way the world changes: here a validator call is counted.\<close>

lemma custom_changes_the_world:
  "snd (runAssertions test_runtime (JObj [])
          [\<lparr>assertion = ''Custom'', inputs = JObj [(''path'', JStr ''./ok.js'')]\<rparr>] 0) = 1"
  by (simp add: runAssertion_def validateObjectLevel_def custom_def destructure_def
      get_prop_def test_runtime_def test_modules_def judge_def settle_def split: prod.splits)

subsection \<open>The custom check bridge behind the runner, on a record\<close>

text \<open>
  On a response that is not a collection, for every Custom spec with an inputs object,
  whatever result \<open>r\<close> the runner produces for it: if the import rejects (module not
  found) or \<^verbatim>\<open>validate\<close> throws, \<open>r\<close> is failed with a string message, which is
  \<^verbatim>\<open>Error running custom assertion script: \<close> followed by the message of the thrown error
  when it has one; if the module has no \<^verbatim>\<open>validate\<close> export or one that is not callable,
  \<open>r\<close> is failed and says that the script exports no \<^verbatim>\<open>validate\<close> function; if the returned
  value lacks the \<^verbatim>\<open>{status: boolean, error: string}\<close> shape (an awaitable, settled either
  way, is such a value), \<open>r\<close> is failed and says that the structure is invalid; and if the
  validator returns \<^verbatim>\<open>{status: false, error: "bad"}\<close>, \<open>r\<close> is failed with the message
  \<^verbatim>\<open>bad\<close>.
\<close>

lemma custom_contract_violations_on_record:
  assumes "\<not> isArray responseData" and "\<not> nullish ins"
    and "runAssertion env responseData \<lparr>assertion = ''Custom'', inputs = ins\<rparr> w = (r, w')"
  shows
    "(\<forall>err w1. import_module env (get_prop env ins ''path'') w = (Inl err, w1) \<longrightarrow>
        passed r = False \<and> (\<exists>m. message r = JStr m)
        \<and> (\<forall>m. js_get env err (JStr ''message'') = Inr (JStr m) \<longrightarrow>
              message r = JStr (''Error running custom assertion script: '' @ m)))
     \<and> (\<forall>w1. import_module env (get_prop env ins ''path'') w = (Inr Missing, w1) \<longrightarrow>
        passed r = False
        \<and> message r = JStr ''Custom script does not export a 'validate' function.'')
     \<and> (\<forall>w1. import_module env (get_prop env ins ''path'') w = (Inr NotCallable, w1) \<longrightarrow>
        passed r = False
        \<and> message r = JStr ''Custom script does not export a 'validate' function.'')
     \<and> (\<forall>validate w1 ret w2.
          import_module env (get_prop env ins ''path'') w = (Inr (Callable validate), w1)
          \<and> validate responseData (rest_without ''path'' ins) w1 = (Inr ret, w2)
          \<and> (\<not> ret_truthy ret \<or> typeof (ret_prop env ret ''status'') \<noteq> ''boolean''
               \<or> typeof (ret_prop env ret ''error'') \<noteq> ''string'') \<longrightarrow>
        passed r = False
        \<and> message r = JStr (''Custom script returned invalid structure. ''
                             @ ''Must be { status: boolean, error: string }.''))
     \<and> (\<forall>validate w1 err w2.
          import_module env (get_prop env ins ''path'') w = (Inr (Callable validate), w1)
          \<and> validate responseData (rest_without ''path'' ins) w1 = (Inl err, w2) \<longrightarrow>
        passed r = False \<and> (\<exists>m. message r = JStr m)
        \<and> (\<forall>m. js_get env err (JStr ''message'') = Inr (JStr m) \<longrightarrow>
              message r = JStr (''Error running custom assertion script: '' @ m)))
     \<and> (\<forall>validate w1 kvs w2.
          import_module env (get_prop env ins ''path'') w = (Inr (Callable validate), w1)
          \<and> validate responseData (rest_without ''path'' ins) w1 = (Inr (Returned (JObj kvs)), w2)
          \<and> map_of kvs ''status'' = Some (JBool False)
          \<and> map_of kvs ''error'' = Some (JStr ''bad'') \<longrightarrow>
        passed r = False \<and> message r = JStr ''bad'')"
proof (intro conjI allI impI)
  fix err w1
  assume imp: "import_module env (get_prop env ins ''path'') w = (Inl err, w1)"
  have "validateObjectLevel env responseData ''Custom'' ins w = (custom_caught env err, w1)"
    using assms(2) imp by (simp add: validateObjectLevel_Custom custom_import_rejected)
  from custom_caught_settled [OF assms(1) this] assms(3)
  show "passed r = False" and "\<exists>m. message r = JStr m"
    and "\<And>m. js_get env err (JStr ''message'') = Inr (JStr m) \<Longrightarrow>
           message r = JStr (''Error running custom assertion script: '' @ m)"
    by auto
next
  fix w1
  assume imp: "import_module env (get_prop env ins ''path'') w = (Inr Missing, w1)"
  then have run: "r = settle ''Custom'' (failing ''Custom script does not export a 'validate' function.'')"
    using assms by (simp add: runAssertion_record validateObjectLevel_Custom custom_missing)
  show "passed r = False"
    and "message r = JStr ''Custom script does not export a 'validate' function.''"
    unfolding run by (simp_all add: settle_failing)
next
  fix w1
  assume imp: "import_module env (get_prop env ins ''path'') w = (Inr NotCallable, w1)"
  then have run: "r = settle ''Custom'' (failing ''Custom script does not export a 'validate' function.'')"
    using assms by (simp add: runAssertion_record validateObjectLevel_Custom custom_not_callable)
  show "passed r = False"
    and "message r = JStr ''Custom script does not export a 'validate' function.''"
    unfolding run by (simp_all add: settle_failing)
next
  fix validate w1 ret w2
  assume h: "import_module env (get_prop env ins ''path'') w = (Inr (Callable validate), w1)
          \<and> validate responseData (rest_without ''path'' ins) w1 = (Inr ret, w2)
          \<and> (\<not> ret_truthy ret \<or> typeof (ret_prop env ret ''status'') \<noteq> ''boolean''
               \<or> typeof (ret_prop env ret ''error'') \<noteq> ''string'')"
  then have "judge env ret = failing ''Custom script returned invalid structure. Must be { status: boolean, error: string }.''"
    using judge_invalid [of ret env] by blast
  then have run: "r = settle ''Custom'' (failing ''Custom script returned invalid structure. Must be { status: boolean, error: string }.'')"
    using assms h by (simp add: runAssertion_record validateObjectLevel_Custom custom_returns)
  show "passed r = False"
    and "message r = JStr (''Custom script returned invalid structure. ''
                             @ ''Must be { status: boolean, error: string }.'')"
    unfolding run by (simp_all add: settle_failing)
next
  fix validate w1 err w2
  assume h: "import_module env (get_prop env ins ''path'') w = (Inr (Callable validate), w1)
          \<and> validate responseData (rest_without ''path'' ins) w1 = (Inl err, w2)"
  have "validateObjectLevel env responseData ''Custom'' ins w = (custom_caught env err, w2)"
    using assms(2) h by (simp add: validateObjectLevel_Custom custom_throws)
  from custom_caught_settled [OF assms(1) this] assms(3)
  show "passed r = False" and "\<exists>m. message r = JStr m"
    and "\<And>m. js_get env err (JStr ''message'') = Inr (JStr m) \<Longrightarrow>
           message r = JStr (''Error running custom assertion script: '' @ m)"
    by auto
next
  fix validate w1 kvs w2
  assume h: "import_module env (get_prop env ins ''path'') w = (Inr (Callable validate), w1)
          \<and> validate responseData (rest_without ''path'' ins) w1 = (Inr (Returned (JObj kvs)), w2)
          \<and> map_of kvs ''status'' = Some (JBool False)
          \<and> map_of kvs ''error'' = Some (JStr ''bad'')"
  then have "judge env (Returned (JObj kvs)) = failing ''bad''"
    using judge_status_false [of kvs "''bad''" env] by simp
  then have run: "r = settle ''Custom'' (failing ''bad'')"
    using assms h by (simp add: runAssertion_record validateObjectLevel_Custom custom_returns)
  show "passed r = False" and "message r = JStr ''bad''"
    unfolding run by (simp_all add: settle_failing)
qed

subsection \<open>The run on a store\<close>






lemma store_runtime_import [simp]: "import_module store_runtime = store_modules"
  by (simp add: store_runtime_def)

lemma store_runtime_proto [simp]: "proto_extra store_runtime v k = False"
  by (simp add: store_runtime_def)

lemma store_runtime_native_own [simp]: "native_own store_runtime n k = False"
  by (simp add: store_runtime_def)

lemma clear_step:
  "runAssertion store_runtime (JObj kvs)
     \<lparr>assertion = ''Custom'', inputs = JObj [(''path'', JStr ''./clear.js'')]\<rparr> h
   = (\<lparr>result_assertion = ''Custom'', passed = True, message = JStr ''Assertion passed.''\<rparr>,
      h\<lparr>cells := (cells h)(0 \<mapsto> Data (JObj []))\<rparr>)"
  by (simp add: runAssertion_def validateObjectLevel_def custom_def destructure_def get_prop_def
      store_modules_def judge_def settle_def passing_def)

lemma custom_validator_can_change_the_response:
  "cells (snd (runAssertions_store store_runtime 0 1 3
            (example_store [\<lparr>assertion = ''Custom'',
                              inputs = JObj [(''path'', JStr ''./clear.js'')]\<rparr>]))) 0
   = Some (Data (JObj []))"
  by (simp add: runAssertions_store_def alloc_def example_store_def read_specs_def read_data_def
      clear_step push_result_def numeral_3_eq_3)

lemma required_id_step:
  \<open>runAssertion store_runtime (JObj kvs)
     \<lparr>assertion = ''Required Fields'', inputs = JArr [JStr ''id'']\<rparr> h
   = (if ''id'' \<in> set (map fst kvs)
      then \<lparr>result_assertion = ''Required Fields'', passed = True,
             message = JStr ''Assertion passed.''\<rparr>
      else \<lparr>result_assertion = ''Required Fields'', passed = False,
             message = JStr ''Missing required field: "id".''\<rparr>, h)\<close>
  by (simp add: runAssertion_def validateObjectLevel_def requiredFields_def
      call_hasOwnProperty_def has_own_def own_keys_def fail_with_def settle_def passing_def
      failing_def)

lemma rerun_after_custom_differs:
  \<open>cells (snd (runAssertions_store store_runtime 0 1 3
            (example_store
               [\<lparr>assertion = ''Required Fields'', inputs = JArr [JStr ''id'']\<rparr>,
                \<lparr>assertion = ''Custom'', inputs = JObj [(''path'', JStr ''./clear.js'')]\<rparr>]))) 2
     = Some (Results
         [\<lparr>result_assertion = ''Required Fields'', passed = True,
            message = JStr ''Assertion passed.''\<rparr>,
          \<lparr>result_assertion = ''Custom'', passed = True,
            message = JStr ''Assertion passed.''\<rparr>])
   \<and> cells (snd (runAssertions_store store_runtime 0 1 3
       (snd (runAssertions_store store_runtime 0 1 3
            (example_store
               [\<lparr>assertion = ''Required Fields'', inputs = JArr [JStr ''id'']\<rparr>,
                \<lparr>assertion = ''Custom'', inputs = JObj [(''path'', JStr ''./clear.js'')]\<rparr>]))))) 3
     = Some (Results
         [\<lparr>result_assertion = ''Required Fields'', passed = False,
            message = JStr ''Missing required field: "id".''\<rparr>,
          \<lparr>result_assertion = ''Custom'', passed = True,
            message = JStr ''Assertion passed.''\<rparr>])\<close>
  by (simp add: runAssertions_store_def alloc_def example_store_def read_specs_def read_data_def
      clear_step required_id_step push_result_def numeral_3_eq_3)

section \<open>The claims\<close>

text \<open>
  C1.  The claim holds of the fan-out and fails at the runner.  On
  \<^verbatim>\<open>[{a:1},{a:"x"},{a:3}]\<close> with a numeric check on \<^verbatim>\<open>a\<close>, \<open>validateOnArrayItems\<close> computes the
  aggregate the claim describes, failing and listing index 1 only; \<open>runAssertions\<close>, which
  does not await that call, returns a failed result whose message is undefined.  On
  \<^verbatim>\<open>[{a:1}]\<close>, where no element fails and the fan-out passes, the runner's result is failed
  as well.
\<close>

theorem C1_fanout_result_not_awaited:
  \<open>validateOnArrayItems env
       [JObj [(''a'', JNum (Fin 1))], JObj [(''a'', JStr ''x'')], JObj [(''a'', JNum (Fin 3))]]
       ''Number Field Validation'' (JArr [JStr ''a'']) w
     = (Inr \<lparr>pass = False,
              msg = ''Item(s) at index [1] failed. Reasons: Index 1: Field "a" is not a number.''\<rparr>,
        w)
   \<and> runAssertions env
       (JArr [JObj [(''a'', JNum (Fin 1))], JObj [(''a'', JStr ''x'')], JObj [(''a'', JNum (Fin 3))]])
       [\<lparr>assertion = ''Number Field Validation'', inputs = JArr [JStr ''a'']\<rparr>] w
     = ([\<lparr>result_assertion = ''Number Field Validation'', passed = False,
          message = JUndefined\<rparr>], w)
   \<and> validateOnArrayItems env [JObj [(''a'', JNum (Fin 1))]]
       ''Number Field Validation'' (JArr [JStr ''a'']) w
     = (Inr \<lparr>pass = True, msg = ''Assertion passed.''\<rparr>, w)
   \<and> runAssertions env (JArr [JObj [(''a'', JNum (Fin 1))]])
       [\<lparr>assertion = ''Number Field Validation'', inputs = JArr [JStr ''a'']\<rparr>] w
     = ([\<lparr>result_assertion = ''Number Field Validation'', passed = False,
          message = JUndefined\<rparr>], w)\<close>
proof -
  have num: "\<And>n. validateObjectLevel env (JObj [(''a'', JNum n)])
                 ''Number Field Validation'' (JArr [JStr ''a'']) w = (Inr passing, w)"
    by (simp add: validateObjectLevel_def numberFieldValidation_def js_get_def get_prop_def)
  have str: \<open>validateObjectLevel env (JObj [(''a'', JStr ''x'')])
                 ''Number Field Validation'' (JArr [JStr ''a'']) w
             = (Inr (failing ''Field "a" is not a number.''), w)\<close>
    by (simp add: validateObjectLevel_def numberFieldValidation_def js_get_def get_prop_def
        fail_with_def)
  have fan3: \<open>validateOnArrayItems env
       [JObj [(''a'', JNum (Fin 1))], JObj [(''a'', JStr ''x'')], JObj [(''a'', JNum (Fin 3))]]
       ''Number Field Validation'' (JArr [JStr ''a'']) w
     = (Inr \<lparr>pass = False,
              msg = ''Item(s) at index [1] failed. Reasons: Index 1: Field "a" is not a number.''\<rparr>,
        w)\<close>
    by (simp add: validateOnArrayItems_def num str failing_def show_nat_digit digit_char_def)
  have fan1: "validateOnArrayItems env [JObj [(''a'', JNum (Fin 1))]]
       ''Number Field Validation'' (JArr [JStr ''a'']) w
     = (Inr \<lparr>pass = True, msg = ''Assertion passed.''\<rparr>, w)"
    by (simp add: validateOnArrayItems_def num passing_def)
  have run: "\<And>xs. runAssertions env (JArr xs)
       [\<lparr>assertion = ''Number Field Validation'', inputs = JArr [JStr ''a'']\<rparr>] w
     = ([\<lparr>result_assertion = ''Number Field Validation'', passed = False,
          message = JUndefined\<rparr>], w)"
    by (simp add: runAssertion_collection_item_level)
  from fan3 fan1 run show ?thesis
    by simp
qed

text \<open>
  C2.  For every response and every list of specs, \<open>runAssertions\<close> returns as many
  results as there are specs, and the i-th result carries the kind of the i-th spec:
  the kinds of the results, read in order, are the kinds of the specs.
\<close>

theorem C2_one_result_per_spec:
  "length (fst (runAssertions env responseData specs w)) = length specs
   \<and> map result_assertion (fst (runAssertions env responseData specs w)) = map assertion specs"
proof -
  have kinds: "map result_assertion (fst (runAssertions env responseData specs w))
               = map assertion specs"
    by (rule runAssertions_kinds)
  have "length (map result_assertion (fst (runAssertions env responseData specs w)))
        = length (map assertion specs)"
    by (simp only: kinds)
  then have "length (fst (runAssertions env responseData specs w)) = length specs"
    by simp
  with kinds show ?thesis
    by (rule_tac conjI)
qed

text \<open>
  C3.  A Pattern Matching spec without inputs raises a TypeError in the evaluator (the
  text of the message is the engine's).  On the record \<^verbatim>\<open>{}\<close> the runner catches it and the
  result carries its message.  On the collection \<^verbatim>\<open>[{}]\<close> the exception rejects the promise
  of \<open>validateOnArrayItems\<close>, which the runner does not await: the result is failed with
  an undefined message, and the exception's message is lost.
\<close>

theorem C3_exception_lost_on_collection:
  \<open>validateOnArrayItems env [JObj []] ''Pattern Matching'' JUndefined w
     = (Inl (TypeError ''Cannot destructure undefined or null''), w)
   \<and> runAssertions env (JArr [JObj []])
       [\<lparr>assertion = ''Pattern Matching'', inputs = JUndefined\<rparr>] w
     = ([\<lparr>result_assertion = ''Pattern Matching'', passed = False, message = JUndefined\<rparr>], w)
   \<and> runAssertions env (JObj [])
       [\<lparr>assertion = ''Pattern Matching'', inputs = JUndefined\<rparr>] w
     = ([\<lparr>result_assertion = ''Pattern Matching'', passed = False,
          message = JStr (''Error during assertion "Pattern Matching": ''
                          @ ''Cannot destructure undefined or null'')\<rparr>], w)\<close>
proof -
  have thrown: "\<And>obj. validateObjectLevel env obj ''Pattern Matching'' JUndefined w
                = (Inl (TypeError ''Cannot destructure undefined or null''), w)"
    by (simp add: validateObjectLevel_def patternMatching_def destructure_def)
  have fan: "validateOnArrayItems env [JObj []] ''Pattern Matching'' JUndefined w
     = (Inl (TypeError ''Cannot destructure undefined or null''), w)"
    by (simp add: validateOnArrayItems_def thrown)
  have coll: "runAssertions env (JArr [JObj []])
       [\<lparr>assertion = ''Pattern Matching'', inputs = JUndefined\<rparr>] w
     = ([\<lparr>result_assertion = ''Pattern Matching'', passed = False, message = JUndefined\<rparr>], w)"
    by (simp add: runAssertion_collection_item_level)
  have rec: \<open>runAssertions env (JObj [])
       [\<lparr>assertion = ''Pattern Matching'', inputs = JUndefined\<rparr>] w
     = ([\<lparr>result_assertion = ''Pattern Matching'', passed = False,
          message = JStr (''Error during assertion "Pattern Matching": ''
                          @ ''Cannot destructure undefined or null'')\<rparr>], w)\<close>
    by (simp add: runAssertion_record thrown caught_def)
  from fan coll rec show ?thesis
    by simp
qed

text \<open>
  C4.  For the kind \<^verbatim>\<open>Bogus\<close>, which no case of the switch names, the evaluator returns a
  passing outcome with the diagnostic message.  The runner copies the message of an
  outcome only when it fails: on a record the result is passed with the message
  \<^verbatim>\<open>Assertion passed.\<close>, not the diagnostic.  On a collection the result is failed, with an
  undefined message.
\<close>

theorem C4_unrecognized_kind_message_dropped:
  \<open>validateObjectLevel env (JObj []) ''Bogus'' (JObj []) w
     = (Inr \<lparr>pass = True, msg = ''Unrecognized assertion type: "Bogus". Skipping.''\<rparr>, w)
   \<and> runAssertions env (JObj []) [\<lparr>assertion = ''Bogus'', inputs = JObj []\<rparr>] w
     = ([\<lparr>result_assertion = ''Bogus'', passed = True,
          message = JStr ''Assertion passed.''\<rparr>], w)
   \<and> runAssertions env (JArr [JObj []]) [\<lparr>assertion = ''Bogus'', inputs = JObj []\<rparr>] w
     = ([\<lparr>result_assertion = ''Bogus'', passed = False, message = JUndefined\<rparr>], w)\<close>
proof -
  have unknown: "''Bogus'' \<notin> set catalog"
    by (simp add: catalog_def)
  have inner: \<open>validateObjectLevel env (JObj []) ''Bogus'' (JObj []) w
     = (Inr \<lparr>pass = True, msg = ''Unrecognized assertion type: "Bogus". Skipping.''\<rparr>, w)\<close>
    using validateObjectLevel_unrecognized [OF unknown, of env "JObj []" "JObj []" w] by simp
  have rec: "runAssertions env (JObj []) [\<lparr>assertion = ''Bogus'', inputs = JObj []\<rparr>] w
     = ([\<lparr>result_assertion = ''Bogus'', passed = True,
          message = JStr ''Assertion passed.''\<rparr>], w)"
    by (simp add: runAssertion_unrecognized_record [OF unknown])
  have coll: "runAssertions env (JArr [JObj []]) [\<lparr>assertion = ''Bogus'', inputs = JObj []\<rparr>] w
     = ([\<lparr>result_assertion = ''Bogus'', passed = False, message = JUndefined\<rparr>], w)"
    by (simp add: runAssertion_collection_item_level)
  from inner rec coll show ?thesis
    by simp
qed

text \<open>
  C5 (as amended).  On an Array Validation spec whose inputs are an object, the
  array-level evaluator returns a result that passes exactly when the length of the
  collection is not below a numeric \<^verbatim>\<open>minLength\<close> and not above a numeric \<^verbatim>\<open>maxLength\<close>;
  it reads nothing of the collection but its length, so the elements, their duplicates
  and \<^verbatim>\<open>enforceUnique\<close> have no part in the result.
\<close>

theorem C5_array_level_length_bounds_only:
  "(\<not> nullish ins \<longrightarrow>
      (\<exists>r. validateArrayLevel env xs ''Array Validation'' ins = Inr r
         \<and> pass r = (\<not> below_number (num_of_nat (length xs)) (get_prop env ins ''minLength'')
                     \<and> \<not> above_number (num_of_nat (length xs)) (get_prop env ins ''maxLength''))))
   \<and> (length xs = length ys \<longrightarrow>
        validateArrayLevel env xs ''Array Validation'' ins
        = validateArrayLevel env ys ''Array Validation'' ins)"
  using validateArrayLevel_bounds [of ins env xs] validateArrayLevel_length_only [of xs ys env]
  by blast

text \<open>The amended claim at a collection with a duplicate, against one without.\<close>

theorem C5_array_level_length_bounds_only_witness:
  "(\<exists>r. validateArrayLevel test_runtime [JNum (Fin 1), JNum (Fin 1)] ''Array Validation''
             (JObj [(''maxLength'', JNum (Fin 2)), (''enforceUnique'', JBool True)]) = Inr r
          \<and> pass r)
   \<and> validateArrayLevel test_runtime [JNum (Fin 1), JNum (Fin 1)] ''Array Validation''
        (JObj [(''maxLength'', JNum (Fin 2)), (''enforceUnique'', JBool True)])
      = validateArrayLevel test_runtime [JNum (Fin 1), JNum (Fin 7)] ''Array Validation''
        (JObj [(''maxLength'', JNum (Fin 2)), (''enforceUnique'', JBool True)])"
proof -
  let ?ins = "JObj [(''maxLength'', JNum (Fin 2)), (''enforceUnique'', JBool True)]"
  let ?xs = "[JNum (Fin 1), JNum (Fin 1)]"
  let ?ys = "[JNum (Fin 1), JNum (Fin 7)]"
  have inst:
    "(\<not> nullish ?ins \<longrightarrow>
        (\<exists>r. validateArrayLevel test_runtime ?xs ''Array Validation'' ?ins = Inr r
           \<and> pass r = (\<not> below_number (num_of_nat (length ?xs)) (get_prop test_runtime ?ins ''minLength'')
                       \<and> \<not> above_number (num_of_nat (length ?xs)) (get_prop test_runtime ?ins ''maxLength''))))
     \<and> (length ?xs = length ?ys \<longrightarrow>
          validateArrayLevel test_runtime ?xs ''Array Validation'' ?ins
          = validateArrayLevel test_runtime ?ys ''Array Validation'' ?ins)"
    by (rule C5_array_level_length_bounds_only)
  have lo: "get_prop test_runtime ?ins ''minLength'' = JUndefined"
    by (simp add: get_prop_def has_own_def own_keys_def inherited_def object_prototype_keys_def)
  have hi: "get_prop test_runtime ?ins ''maxLength'' = JNum (Fin 2)"
    by (simp add: get_prop_def)
  have bounds: "\<not> below_number (num_of_nat (length ?xs)) JUndefined
                \<and> \<not> above_number (num_of_nat (length ?xs)) (JNum (Fin 2))"
    by (simp add: below_number_def above_number_def num_of_nat_def num_gt_def)
  have h1: "\<not> nullish ?ins"
    by simp
  have h2: "length ?xs = length ?ys"
    by simp
  have first: "\<exists>r. validateArrayLevel test_runtime ?xs ''Array Validation'' ?ins = Inr r \<and> pass r"
    using conjunct1 [OF inst, THEN mp, OF h1] bounds unfolding lo hi by blast
  have second: "validateArrayLevel test_runtime ?xs ''Array Validation'' ?ins
          = validateArrayLevel test_runtime ?ys ''Array Validation'' ?ins"
    by (rule conjunct2 [OF inst, THEN mp, OF h2])
  from first second show ?thesis by (rule conjI)
qed

text \<open>
  The claim as stated fails: with uniqueness requested and a duplicated element, the
  array-level evaluator passes.
\<close>

theorem C5_uniqueness_counterexample:
  "set_size [JNum (Fin 1), JNum (Fin 1)] \<noteq> length [JNum (Fin 1), JNum (Fin 1)]
   \<and> validateArrayLevel test_runtime [JNum (Fin 1), JNum (Fin 1)] ''Array Validation''
        (JObj [(''enforceUnique'', JBool True)]) = Inr \<lparr>pass = True, msg = ''Assertion passed.''\<rparr>"
  by (simp add: set_size_def validateArrayLevel_def destructure_def get_prop_def
      below_number_def above_number_def has_own_def own_keys_def inherited_def
      object_prototype_keys_def passing_def)

text \<open>
  C6 (as amended).  On a record, for a Custom spec whose module exports a callable
  \<^verbatim>\<open>validate\<close>: when the call returns the object \<^verbatim>\<open>{status: true, error: s}\<close> itself, the
  result is passing; when it returns an awaitable, whatever that resolves to, the result
  is failed with the message that the script returned an invalid structure.  The bridge
  accepts the synchronous return only.
\<close>

theorem C6_custom_sync_passes_awaitable_rejected:
  assumes "\<not> isArray responseData" and "\<not> nullish ins"
    and "import_module env (get_prop env ins ''path'') w = (Inr (Callable validate), w1)"
    and "validate responseData (rest_without ''path'' ins) w1 = (Inr ret, w2)"
  shows
    "(\<forall>kvs s. ret = Returned (JObj kvs) \<and> map_of kvs ''status'' = Some (JBool True)
         \<and> map_of kvs ''error'' = Some (JStr s) \<longrightarrow>
       runAssertion env responseData \<lparr>assertion = ''Custom'', inputs = ins\<rparr> w
       = (\<lparr>result_assertion = ''Custom'', passed = True,
           message = JStr ''Assertion passed.''\<rparr>, w2))
     \<and> (\<forall>p. ret = Awaitable p \<longrightarrow>
       runAssertion env responseData \<lparr>assertion = ''Custom'', inputs = ins\<rparr> w
       = (\<lparr>result_assertion = ''Custom'', passed = False,
           message = JStr (''Custom script returned invalid structure. ''
                           @ ''Must be { status: boolean, error: string }.'')\<rparr>, w2))"
proof -
  have run: "runAssertion env responseData \<lparr>assertion = ''Custom'', inputs = ins\<rparr> w
             = (settle ''Custom'' (judge env ret), w2)"
    using assms
    by (simp add: runAssertion_record validateObjectLevel_Custom custom_returns)
  show ?thesis
    unfolding run
    by (auto simp: judge_status_true judge_awaitable settle_passing settle_failing)
qed

text \<open>The amended claim at the module \<^verbatim>\<open>./ok.js\<close>, which returns its object synchronously.\<close>

theorem C6_custom_sync_passes_awaitable_rejected_witness:
  "runAssertion test_runtime (JObj []) \<lparr>assertion = ''Custom'', inputs = JObj [(''path'', JStr ''./ok.js'')]\<rparr> 0
   = (\<lparr>result_assertion = ''Custom'', passed = True, message = JStr ''Assertion passed.''\<rparr>, 1)"
proof -
  let ?ins = "JObj [(''path'', JStr ''./ok.js'')]"
  let ?validate = "\<lambda>(obj::jsval) (rest::jsval) n.
           (Inr (Returned (JObj [(''status'', JBool True), (''error'', JStr [])])) :: jsval + cvret, Suc n)"
  have h1: "\<not> isArray (JObj [])" by simp
  have h2: "\<not> nullish ?ins" by simp
  have h3: "import_module test_runtime (get_prop test_runtime ?ins ''path'') 0
            = (Inr (Callable ?validate), 0)"
    by (simp add: test_runtime_def test_modules_def get_prop_def)
  have h4: "?validate (JObj []) (rest_without ''path'' ?ins) 0
            = (Inr (Returned (JObj [(''status'', JBool True), (''error'', JStr [])])), 1)"
    by simp
  show ?thesis
    using conjunct1 [OF C6_custom_sync_passes_awaitable_rejected [OF h1 h2 h3 h4]]
    by simp
qed

text \<open>
  The claim as stated fails: \<^verbatim>\<open>./async.js\<close> exports a callable \<^verbatim>\<open>validate\<close> that returns an
  awaitable resolving to \<^verbatim>\<open>{status: true, error: ""}\<close>, and the result is failed.
\<close>

theorem C6_awaitable_counterexample:
  "runAssertion test_runtime (JObj [])
     \<lparr>assertion = ''Custom'', inputs = JObj [(''path'', JStr ''./async.js'')]\<rparr> 0
   = (\<lparr>result_assertion = ''Custom'', passed = False,
       message = JStr ''Custom script returned invalid structure. Must be { status: boolean, error: string }.''\<rparr>, 1)"
  by (simp add: runAssertion_def validateObjectLevel_def custom_def destructure_def
      get_prop_def test_runtime_def test_modules_def judge_def settle_def failing_def)

text \<open>
  C7.  The bridge does what the claim says, and on a record the runner hands its outcome
  on: the validator of \<^verbatim>\<open>./bad.js\<close>, which returns \<^verbatim>\<open>{status: false, error: "bad"}\<close>, gives a
  failed result with the message \<^verbatim>\<open>bad\<close>.  On a collection the runner does not await the
  fan-out that calls the bridge: for the same validator, and for a module with no
  \<^verbatim>\<open>validate\<close> export, the result is failed with an undefined message, neither \<^verbatim>\<open>bad\<close> nor
  an explanation.
\<close>

theorem C7_bridge_outcome_lost_on_collection:
  "validateObjectLevel test_runtime (JObj []) ''Custom''
       (JObj [(''path'', JStr ''./bad.js'')]) 0
     = (Inr \<lparr>pass = False, msg = ''bad''\<rparr>, 1)
   \<and> runAssertions test_runtime (JObj [])
       [\<lparr>assertion = ''Custom'', inputs = JObj [(''path'', JStr ''./bad.js'')]\<rparr>] 0
     = ([\<lparr>result_assertion = ''Custom'', passed = False, message = JStr ''bad''\<rparr>], 1)
   \<and> runAssertions test_runtime (JArr [JObj []])
       [\<lparr>assertion = ''Custom'', inputs = JObj [(''path'', JStr ''./bad.js'')]\<rparr>] 0
     = ([\<lparr>result_assertion = ''Custom'', passed = False, message = JUndefined\<rparr>], 0)
   \<and> runAssertions test_runtime (JArr [JObj []])
       [\<lparr>assertion = ''Custom'', inputs = JObj [(''path'', JStr ''./noexport.js'')]\<rparr>] 0
     = ([\<lparr>result_assertion = ''Custom'', passed = False, message = JUndefined\<rparr>], 0)"
proof -
  have bridge: "validateObjectLevel test_runtime (JObj []) ''Custom''
       (JObj [(''path'', JStr ''./bad.js'')]) 0
     = (Inr \<lparr>pass = False, msg = ''bad''\<rparr>, 1)"
    by (simp add: validateObjectLevel_def custom_def destructure_def get_prop_def
        test_runtime_def test_modules_def judge_def failing_def)
  have rec: "runAssertions test_runtime (JObj [])
       [\<lparr>assertion = ''Custom'', inputs = JObj [(''path'', JStr ''./bad.js'')]\<rparr>] 0
     = ([\<lparr>result_assertion = ''Custom'', passed = False, message = JStr ''bad''\<rparr>], 1)"
    by (simp add: runAssertion_record bridge settle_def)
  have coll: "\<And>ins. runAssertions test_runtime (JArr [JObj []])
       [\<lparr>assertion = ''Custom'', inputs = ins\<rparr>] 0
     = ([\<lparr>result_assertion = ''Custom'', passed = False, message = JUndefined\<rparr>], 0)"
    by (simp add: runAssertion_collection_item_level)
  from bridge rec coll show ?thesis
    by simp
qed



text \<open>
  C9.  For every record and every Nullability spec whose \<^verbatim>\<open>nonNullable\<close> is a list of field
  names, whatever its \<^verbatim>\<open>nullable\<close> is: the non-null check passes exactly when no listed
  field is bound to null in the record, so a listed field that is absent from the record
  passes it (reading it gives undefined or an inherited built-in, never null).  When no
  listed field is null, the verdict of the whole check is that of the nullable check
  alone; when one is, the whole check fails with the message that the first such field
  should not be null.
\<close>

theorem C9_absent_field_passes_non_null_check:
  assumes "\<not> nullish ins"
    and "get_prop env ins ''nonNullable'' = JArr (map JStr fs)"
  shows
    \<open>(\<exists>r. nonNullCheck env (JObj kvs) (map JStr fs) = Inr r
          \<and> pass r = (\<forall>f \<in> set fs. map_of kvs f \<noteq> Some JNull))
     \<and> (\<forall>f. f \<notin> set (map fst kvs) \<longrightarrow> nonNullCheck env (JObj kvs) [JStr f] = Inr passing)
     \<and> ((\<forall>f \<in> set fs. map_of kvs f \<noteq> Some JNull) \<longrightarrow>
          validateObjectLevel env (JObj kvs) ''Nullability'' ins w
          = (bindE (iterate (default_to (get_prop env ins ''nullable'') (JArr [])))
               (nullableCheck env (JObj kvs)), w))
     \<and> (\<forall>f. find (\<lambda>f. map_of kvs f = Some JNull) fs = Some f \<longrightarrow>
          validateObjectLevel env (JObj kvs) ''Nullability'' ins w
          = (Inr (failing (''Field "'' @ f @ ''" should not be null.'')), w))\<close>
proof (intro conjI allI impI)
  show "\<exists>r. nonNullCheck env (JObj kvs) (map JStr fs) = Inr r
          \<and> pass r = (\<forall>f \<in> set fs. map_of kvs f \<noteq> Some JNull)"
    by (rule nonNullCheck_pass)
next
  fix f
  assume "f \<notin> set (map fst kvs)"
  then have "map_of kvs f = None"
    by (simp add: map_of_eq_None_iff)
  then show "nonNullCheck env (JObj kvs) [JStr f] = Inr passing"
    using nonNullCheck_first_null [of env kvs "[f]"] by simp
next
  assume "\<forall>f \<in> set fs. map_of kvs f \<noteq> Some JNull"
  then have "find (\<lambda>f. map_of kvs f = Some JNull) fs = None"
    by (simp add: find_None_iff)
  then show "validateObjectLevel env (JObj kvs) ''Nullability'' ins w
          = (bindE (iterate (default_to (get_prop env ins ''nullable'') (JArr [])))
               (nullableCheck env (JObj kvs)), w)"
    using nullability_by_non_null [OF assms, of kvs]
    by (simp add: validateObjectLevel_def)
next
  fix f
  assume "find (\<lambda>f. map_of kvs f = Some JNull) fs = Some f"
  then show \<open>validateObjectLevel env (JObj kvs) ''Nullability'' ins w
          = (Inr (failing (''Field "'' @ f @ ''" should not be null.'')), w)\<close>
    using nullability_by_non_null [OF assms, of kvs]
    by (simp add: validateObjectLevel_def nonNullCheck_first_null)
qed

text \<open>
  The claim at the record \<^verbatim>\<open>{id: 1}\<close> with \<^verbatim>\<open>nonNullable: ["id", "name"]\<close> and
  \<^verbatim>\<open>nullable: ["description"]\<close>: the absent \<^verbatim>\<open>name\<close> passes, and so does the whole check.
\<close>

theorem C9_absent_field_passes_non_null_check_witness:
  "validateObjectLevel test_runtime (JObj [(''id'', JNum (Fin 1))]) ''Nullability''
     (JObj [(''nonNullable'', JArr [JStr ''id'', JStr ''name'']),
            (''nullable'', JArr [JStr ''description''])]) (0::nat)
   = (Inr \<lparr>pass = True, msg = ''Assertion passed.''\<rparr>, 0)"
proof -
  let ?ins = "JObj [(''nonNullable'', JArr [JStr ''id'', JStr ''name'']),
                    (''nullable'', JArr [JStr ''description''])]"
  let ?kvs = "[(''id'', JNum (Fin 1))]"
  have h1: "\<not> nullish ?ins"
    by simp
  have h2: "get_prop test_runtime ?ins ''nonNullable'' = JArr (map JStr [''id'', ''name''])"
    by (simp add: get_prop_def)
  have h3: "\<forall>f \<in> set [''id'', ''name'']. map_of ?kvs f \<noteq> Some JNull"
    by simp
  note all = C9_absent_field_passes_non_null_check [OF h1 h2, of ?kvs 0]
  have "validateObjectLevel test_runtime (JObj ?kvs) ''Nullability'' ?ins (0::nat)
        = (bindE (iterate (default_to (get_prop test_runtime ?ins ''nullable'') (JArr [])))
             (nullableCheck test_runtime (JObj ?kvs)), 0)"
    by (rule all [THEN conjunct2, THEN conjunct2, THEN conjunct1, THEN mp, OF h3])
  moreover have "bindE (iterate (default_to (get_prop test_runtime ?ins ''nullable'') (JArr [])))
             (nullableCheck test_runtime (JObj ?kvs)) = Inr passing"
    by (simp add: get_prop_def default_to_def nullableCheck_def call_hasOwnProperty_def
        has_own_def own_keys_def)
  ultimately show ?thesis
    by (simp add: passing_def)
qed

text \<open>
  C10.  The item fan-out applied to the empty collection passes, for every kind and every
  inputs value, and evaluates no item; a kind such as Required Fields would fail on the
  empty record itself.
\<close>

theorem C10_fanout_empty:
  \<open>validateOnArrayItems env [] kind ins w = (Inr \<lparr>pass = True, msg = ''Assertion passed.''\<rparr>, w)
   \<and> validateObjectLevel env (JObj []) ''Required Fields'' (JArr [JStr ''id'']) w
       = (Inr \<lparr>pass = False, msg = ''Missing required field: "id".''\<rparr>, w)\<close>
proof
  show "validateOnArrayItems env [] kind ins w
        = (Inr \<lparr>pass = True, msg = ''Assertion passed.''\<rparr>, w)"
    by (simp add: validateOnArrayItems_def passing_def)
next
  have "requiredFields env (JObj []) (JArr [JStr ''id''])
        = Inr (failing (''Missing required field: '' @ [CHR 0x22] @ ''id'' @ [CHR 0x22] @ ''.''))"
    by (simp add: requiredFields_def call_hasOwnProperty_def has_own_def own_keys_def
        fail_with_def)
  then show \<open>validateObjectLevel env (JObj []) ''Required Fields'' (JArr [JStr ''id'']) w
        = (Inr \<lparr>pass = False, msg = ''Missing required field: "id".''\<rparr>, w)\<close>
    by (simp add: validateObjectLevel_def failing_def)
qed

end
